theory Spec2Isabelle
  imports Main "HOL-Library.AList"
begin

section \<open>Values shared by the three services\<close>

text \<open>
  The services exchange Python dictionaries whose values are strings, lists, numbers,
  \<open>None\<close> and nested dictionaries: exactly what \<open>json.loads\<close> produces. A dictionary is
  an association list in insertion order, as a Python \<open>dict\<close> is.
\<close>

datatype json =
    JNull
  | JBool bool
  | JInt int
  | JFloat string
  | JStr string
  | JArr "json list"
  | JObj "(string \<times> json) list"

type_synonym dict = "(string \<times> json) list"

text \<open>
  A Python exception of class \<open>Exception\<close> (or a subclass), carrying \<open>str(e)\<close>.
  \<open>KeyboardInterrupt\<close> and the other \<open>BaseException\<close>-only classes are outside the model.
\<close>

datatype exn = Raised string

fun str_exn :: "exn \<Rightarrow> string" where
  "str_exn (Raised m) = m"

section \<open>document\_storage.py: the in-memory store\<close>

text \<open>
  \<open>datetime\<close> values are counted in microseconds, the resolution of Python's
  \<open>datetime\<close>; \<open>timedelta(seconds=s)\<close> is \<open>s\<close> million of them. Every call of
  \<open>datetime.utcnow()\<close> in the source is one explicit argument of the model, in the order
  the source makes the calls. \<open>str(uuid.uuid4())\<close> is the argument \<open>document_id\<close>.
  The lock makes each operation atomic; the model is the body run under the lock.
\<close>

type_synonym datetime = int

definition timedelta_seconds :: "int \<Rightarrow> int" where
  "timedelta_seconds s = 1000000 * s"

record document =
  doc_text :: string
  filename :: "string option"
  created_at :: datetime
  expires_at :: datetime
  analysis_result :: "dict option"

record storage =
  documents :: "(string \<times> document) list"
  session_timeout :: int

definition init_storage :: "int \<Rightarrow> storage" where
  "init_storage timeout = \<lparr>documents = [], session_timeout = timeout\<rparr>"

text \<open>
  \<open>store_document\<close>: \<open>t_expiry\<close> is the reading of the clock in the line that computes
  \<open>expires_at\<close>, \<open>t_created\<close> the later reading inside the dictionary literal.
\<close>

definition store_document ::
  "datetime \<Rightarrow> datetime \<Rightarrow> string \<Rightarrow> string \<Rightarrow> string option \<Rightarrow> storage \<Rightarrow> storage \<times> string" where
  "store_document t_expiry t_created document_id txt fname st =
     (let expires = t_expiry + timedelta_seconds (session_timeout st) in
      (st\<lparr>documents := AList.update document_id
            \<lparr>doc_text = txt, filename = fname, created_at = t_created,
             expires_at = expires, analysis_result = None\<rparr> (documents st)\<rparr>,
       document_id))"

definition get_document :: "datetime \<Rightarrow> string \<Rightarrow> storage \<Rightarrow> storage \<times> document option" where
  "get_document now document_id st =
     (case map_of (documents st) document_id of
        None \<Rightarrow> (st, None)
      | Some doc \<Rightarrow>
          if now > expires_at doc
          then (st\<lparr>documents := AList.delete document_id (documents st)\<rparr>, None)
          else (st, Some doc))"

definition update_analysis :: "datetime \<Rightarrow> string \<Rightarrow> dict \<Rightarrow> storage \<Rightarrow> storage \<times> bool" where
  "update_analysis now document_id result st =
     (case map_of (documents st) document_id of
        None \<Rightarrow> (st, False)
      | Some doc \<Rightarrow>
          if now > expires_at doc
          then (st\<lparr>documents := AList.delete document_id (documents st)\<rparr>, False)
          else (st\<lparr>documents := AList.update document_id
                  (doc\<lparr>analysis_result := Some result\<rparr>) (documents st)\<rparr>, True))"

definition delete_document :: "string \<Rightarrow> storage \<Rightarrow> storage \<times> bool" where
  "delete_document document_id st =
     (if document_id \<in> fst ` set (documents st)
      then (st\<lparr>documents := AList.delete document_id (documents st)\<rparr>, True)
      else (st, False))"

text \<open>
  \<open>cleanup_expired\<close>: the first loop collects \<open>expired_ids\<close>, the second deletes them
  one by one, and the length of the list is returned.
\<close>

definition expired_ids :: "datetime \<Rightarrow> (string \<times> document) list \<Rightarrow> string list" where
  "expired_ids current_time docs =
     map fst (filter (\<lambda>(doc_id, doc). current_time > expires_at doc) docs)"

definition cleanup_expired :: "datetime \<Rightarrow> storage \<Rightarrow> storage \<times> nat" where
  "cleanup_expired current_time st =
     (let ids = expired_ids current_time (documents st) in
      (st\<lparr>documents := fold AList.delete ids (documents st)\<rparr>, length ids))"

text \<open>The keys of a Python dictionary are pairwise distinct.\<close>

definition wf_storage :: "storage \<Rightarrow> bool" where
  "wf_storage st = distinct (map fst (documents st))"

text \<open>A store holding one document that expires at instant 100.\<close>

definition sample_doc :: document where
  "sample_doc = \<lparr>doc_text = ''Rent: $1200'', filename = Some ''lease.pdf'', created_at = 40,
                 expires_at = 100, analysis_result = None\<rparr>"

definition sample_storage :: storage where
  "sample_storage = \<lparr>documents = [(''d1'', sample_doc)], session_timeout = 3600\<rparr>"

section \<open>Python strings\<close>

text \<open>
  A character is a code point below 256. \<open>is_space\<close> is \<open>str.isspace\<close> on one such
  character, \<open>py_strip\<close> is \<open>str.strip()\<close>, \<open>join_str\<close> is \<open>sep.join(xs)\<close> and
  \<open>str_nat\<close> is \<open>str(n)\<close> (also the \<open>{n}\<close> of an f-string) for a natural number.
\<close>

definition is_space :: "char \<Rightarrow> bool" where
  "is_space c = ((of_char c :: nat) \<in> {9, 10, 11, 12, 13, 28, 29, 30, 31, 32, 133, 160})"

definition py_strip :: "string \<Rightarrow> string" where
  "py_strip s = rev (dropWhile is_space (rev (dropWhile is_space s)))"

fun join_str :: "string \<Rightarrow> string list \<Rightarrow> string" where
  "join_str sep [] = []"
| "join_str sep [x] = x"
| "join_str sep (x # y # ys) = x @ sep @ join_str sep (y # ys)"

definition digit_char :: "nat \<Rightarrow> char" where
  "digit_char d = ''0123456789'' ! d"

fun str_nat :: "nat \<Rightarrow> string" where
  "str_nat n = (if n < 10 then [digit_char n] else str_nat (n div 10) @ [digit_char (n mod 10)])"

declare str_nat.simps [simp del]

section \<open>pdf\_processor.py: text extraction\<close>

text \<open>
  pdfplumber and PyPDF2 are not part of the repository. What a library does with one
  input is a value of the model: opening the document (reading the stream included)
  raises or gives the pages, and \<open>extract_text()\<close> on a page (fetching the page included)
  raises, returns \<open>None\<close> or returns a string.
\<close>

datatype page = PageRaises exn | PageText "string option"

datatype pdf = OpenRaises exn | Pages "page list"

record pdf_source =
  plumber_view :: pdf
  pypdf2_view :: pdf

text \<open>The uploaded file: the two views of its bytes and what its two \<open>seek(0)\<close> calls do.\<close>

record upload = pdf_source +
  first_seek :: "exn option"
  second_seek :: "exn option"

definition max_pages :: nat where
  "max_pages = 50"

definition min_text_length :: nat where
  "min_text_length = 10"

definition page_block :: "nat \<Rightarrow> string \<Rightarrow> string" where
  "page_block page_num txt = ''--- Page '' @ str_nat (page_num + 1) @ '' ---\<newline>'' @ txt @ ''\<newline>''"

text \<open>One round of the page loop: a page that raises or has no text adds nothing.\<close>

definition extract_page :: "page list \<Rightarrow> string list \<Rightarrow> nat \<Rightarrow> string list" where
  "extract_page pages extracted_text page_num =
     (case pages ! page_num of
        PageRaises e \<Rightarrow> extracted_text
      | PageText None \<Rightarrow> extracted_text
      | PageText (Some txt) \<Rightarrow>
          if txt \<noteq> [] then extracted_text @ [page_block page_num txt] else extracted_text)"

definition extract_pages :: "page list \<Rightarrow> string list" where
  "extract_pages pages =
     (let total_pages = length pages;
          pages_to_process = min total_pages max_pages
      in foldl (extract_page pages) [] [0..<pages_to_process])"

text \<open>
  \<open>_extract_with_pdfplumber\<close> and \<open>_extract_with_pypdf2\<close> have the same body up to the
  library they call and the name in the error message.
\<close>

definition extract_with :: "string \<Rightarrow> pdf \<Rightarrow> bool \<times> string \<times> string option" where
  "extract_with lib p =
     (case p of
        OpenRaises e \<Rightarrow> (False, [], Some (lib @ '' error: '' @ str_exn e))
      | Pages pages \<Rightarrow>
          (let full_text = join_str ''\<newline>'' (extract_pages pages) in
           if length (py_strip full_text) < min_text_length
           then (False, [], Some ''No readable text found in PDF'')
           else (True, full_text, None)))"

definition extract_with_pdfplumber :: "'a pdf_source_scheme \<Rightarrow> bool \<times> string \<times> string option" where
  "extract_with_pdfplumber file = extract_with ''pdfplumber'' (plumber_view file)"

definition extract_with_pypdf2 :: "'a pdf_source_scheme \<Rightarrow> bool \<times> string \<times> string option" where
  "extract_with_pypdf2 file = extract_with ''PyPDF2'' (pypdf2_view file)"

text \<open>The \<open>try\<close> block of \<open>extract_text\<close>; \<open>Inl\<close> is an exception that leaves it.\<close>

definition extract_text_body :: "upload \<Rightarrow> exn + bool \<times> string \<times> string option" where
  "extract_text_body file =
     (case first_seek file of
        Some e \<Rightarrow> Inl e
      | None \<Rightarrow>
          (case extract_with_pdfplumber file of (success, txt, error) \<Rightarrow>
             if success \<and> length (py_strip txt) \<ge> min_text_length then Inr (True, txt, None)
             else
               (case second_seek file of
                  Some e \<Rightarrow> Inl e
                | None \<Rightarrow>
                    (case extract_with_pypdf2 file of (success, txt, error) \<Rightarrow>
                       if success \<and> length (py_strip txt) \<ge> min_text_length
                       then Inr (True, txt, None)
                       else if length (py_strip txt) < min_text_length
                       then Inr (False, [], Some ''Document appears to be empty or contains only images'')
                       else Inr (False, [],
                              Some (case error of
                                      None \<Rightarrow> ''Failed to extract text from PDF''
                                    | Some m \<Rightarrow> if m \<noteq> [] then m
                                               else ''Failed to extract text from PDF''))))))"

definition extract_text :: "upload \<Rightarrow> exn + bool \<times> string \<times> string option" where
  "extract_text file =
     (case extract_text_body file of
        Inr r \<Rightarrow> Inr r
      | Inl e \<Rightarrow> Inr (False, [], Some (''Error processing PDF: '' @ str_exn e)))"

text \<open>
  \<open>extract_text_from_bytes\<close>: each inner \<open>try\<close> returns the text when it is long enough
  and otherwise (also when the library raised) falls through to the next statement.
\<close>

definition bytes_attempt :: "pdf \<Rightarrow> string option" where
  "bytes_attempt p =
     (case p of
        OpenRaises e \<Rightarrow> None
      | Pages pages \<Rightarrow>
          (let full_text = join_str ''\<newline>'' (extract_pages pages) in
           if length (py_strip full_text) \<ge> min_text_length then Some full_text else None))"

definition extract_text_from_bytes_body :: "pdf_source \<Rightarrow> exn + string" where
  "extract_text_from_bytes_body pdf_bytes =
     (case bytes_attempt (plumber_view pdf_bytes) of
        Some full_text \<Rightarrow> Inr full_text
      | None \<Rightarrow>
          (case bytes_attempt (pypdf2_view pdf_bytes) of
             Some full_text \<Rightarrow> Inr full_text
           | None \<Rightarrow> Inl (Raised ''Document appears to be empty or contains only images'')))"

definition extract_text_from_bytes :: "pdf_source \<Rightarrow> exn + string" where
  "extract_text_from_bytes pdf_bytes =
     (case extract_text_from_bytes_body pdf_bytes of
        Inr full_text \<Rightarrow> Inr full_text
      | Inl e \<Rightarrow> Inl (Raised (''Failed to extract text from PDF: '' @ str_exn e)))"

text \<open>
  Vocabulary for the properties: a page has text when \<open>extract_text()\<close> returns a
  non-empty string; \<open>text_page_indices\<close> are the indices of such pages among the pages
  the loop visits.
\<close>

fun has_text :: "page \<Rightarrow> bool" where
  "has_text (PageText (Some txt)) = (txt \<noteq> [])"
| "has_text _ = False"

fun page_text :: "page \<Rightarrow> string" where
  "page_text (PageText (Some txt)) = txt"
| "page_text _ = []"

definition text_page_indices :: "page list \<Rightarrow> nat list" where
  "text_page_indices pages = filter (\<lambda>i. has_text (pages ! i)) [0..<min (length pages) max_pages]"

text \<open>
  What one library can read of a document: nothing when opening it raises or when no
  visited page has text, and otherwise the blocks of the visited pages that have text,
  joined by a line break.
\<close>

definition view_text :: "pdf \<Rightarrow> string option" where
  "view_text p =
     (case p of
        OpenRaises e \<Rightarrow> None
      | Pages pages \<Rightarrow>
          if text_page_indices pages = [] then None
          else Some (join_str ''\<newline>''
                 (map (\<lambda>i. page_block i (page_text (pages ! i))) (text_page_indices pages))))"

text \<open>Sample inputs: a corrupt file, and a file of 51 pages whose first page is a scan.\<close>

definition corrupt_bytes :: pdf_source where
  "corrupt_bytes = \<lparr>plumber_view = OpenRaises (Raised ''No /Root object! - Is this really a PDF?''),
                    pypdf2_view = OpenRaises (Raised ''EOF marker not found'')\<rparr>"

definition corrupt_upload :: upload where
  "corrupt_upload = \<lparr>plumber_view = OpenRaises (Raised ''No /Root object! - Is this really a PDF?''),
                     pypdf2_view = OpenRaises (Raised ''EOF marker not found''),
                     first_seek = None, second_seek = None\<rparr>"

definition scanned_first_page :: "page list" where
  "scanned_first_page = PageText None # replicate 50 (PageText (Some ''Clause text''))"

definition scanned_bytes :: pdf_source where
  "scanned_bytes = \<lparr>plumber_view = Pages [PageText None, PageText (Some [])],
                    pypdf2_view = Pages [PageRaises (Raised ''unsupported filter''), PageText None]\<rparr>"

definition unseekable_upload :: upload where
  "unseekable_upload = \<lparr>plumber_view = Pages [PageText (Some ''Rent: $1200'')],
                        pypdf2_view = Pages [PageText (Some ''Rent: $1200'')],
                        first_seek = Some (Raised ''I/O operation on closed file.''),
                        second_seek = None\<rparr>"

definition two_pages :: "page list" where
  "two_pages = [PageText (Some ''Rent: $1200''), PageText (Some ''Deposit: $500'')]"

definition scanned_first_page_file :: pdf_source where
  "scanned_first_page_file = \<lparr>plumber_view = Pages scanned_first_page,
                               pypdf2_view = Pages scanned_first_page\<rparr>"

definition two_page_file :: pdf_source where
  "two_page_file = \<lparr>plumber_view = Pages two_pages, pypdf2_view = Pages two_pages\<rparr>"

section \<open>ai\_analyzer.py: prompts, the oracle call and response parsing\<close>

subsection \<open>Python operations on decoded JSON\<close>

text \<open>
  The oracle's payload is navigated with \<open>in\<close>, \<open>len\<close> and subscripts, whose meaning
  depends on the dynamic type of the value; on a value of the wrong type they raise.
  \<open>Inl\<close> is the raised exception.
\<close>

definition bind_exn :: "exn + 'a \<Rightarrow> ('a \<Rightarrow> exn + 'b) \<Rightarrow> exn + 'b" where
  "bind_exn m f = (case m of Inl e \<Rightarrow> Inl e | Inr x \<Rightarrow> f x)"

fun type_name :: "json \<Rightarrow> string" where
  "type_name JNull = ''NoneType''"
| "type_name (JBool b) = ''bool''"
| "type_name (JInt i) = ''int''"
| "type_name (JFloat f) = ''float''"
| "type_name (JStr s) = ''str''"
| "type_name (JArr xs) = ''list''"
| "type_name (JObj d) = ''dict''"

definition quoted :: "string \<Rightarrow> string" where
  "quoted s = [CHR 0x27] @ s @ [CHR 0x27]"

fun starts_with :: "string \<Rightarrow> string \<Rightarrow> bool" where
  "starts_with [] s = True"
| "starts_with (p # ps) [] = False"
| "starts_with (p # ps) (c # cs) = (p = c \<and> starts_with ps cs)"

fun contains_str :: "string \<Rightarrow> string \<Rightarrow> bool" where
  "contains_str sub [] = (sub = [])"
| "contains_str sub (c # cs) = (starts_with sub (c # cs) \<or> contains_str sub cs)"

text \<open>\<open>key in v\<close> for a string \<open>key\<close>.\<close>

fun py_contains :: "string \<Rightarrow> json \<Rightarrow> exn + bool" where
  "py_contains k (JObj d) = Inr (k \<in> fst ` set d)"
| "py_contains k (JArr xs) = Inr (JStr k \<in> set xs)"
| "py_contains k (JStr s) = Inr (contains_str k s)"
| "py_contains k v = Inl (Raised (''argument of type '' @ quoted (type_name v) @ '' is not iterable''))"

text \<open>\<open>len(v)\<close>.\<close>

fun py_len :: "json \<Rightarrow> exn + nat" where
  "py_len (JObj d) = Inr (length d)"
| "py_len (JArr xs) = Inr (length xs)"
| "py_len (JStr s) = Inr (length s)"
| "py_len v = Inl (Raised (''object of type '' @ quoted (type_name v) @ '' has no len()''))"

text \<open>\<open>v[key]\<close> for a string \<open>key\<close>.\<close>

fun py_getitem_str :: "json \<Rightarrow> string \<Rightarrow> exn + json" where
  "py_getitem_str (JObj d) k = (case map_of d k of Some x \<Rightarrow> Inr x | None \<Rightarrow> Inl (Raised (quoted k)))"
| "py_getitem_str (JArr xs) k = Inl (Raised ''list indices must be integers or slices, not str'')"
| "py_getitem_str (JStr s) k = Inl (Raised ''string indices must be integers'')"
| "py_getitem_str v k = Inl (Raised (quoted (type_name v) @ '' object is not subscriptable''))"

text \<open>\<open>v[0]\<close>. The keys of a decoded JSON object are strings, so \<open>0\<close> is never one.\<close>

fun py_getitem_0 :: "json \<Rightarrow> exn + json" where
  "py_getitem_0 (JArr []) = Inl (Raised ''list index out of range'')"
| "py_getitem_0 (JArr (x # xs)) = Inr x"
| "py_getitem_0 (JStr []) = Inl (Raised ''string index out of range'')"
| "py_getitem_0 (JStr (c # cs)) = Inr (JStr [c])"
| "py_getitem_0 (JObj d) = Inl (Raised ''0'')"
| "py_getitem_0 v = Inl (Raised (quoted (type_name v) @ '' object is not subscriptable''))"

subsection \<open>The world outside the repository\<close>

text \<open>
  \<open>requests.post\<close> raises (unreachable host, timeout after 30 seconds) or gives a
  response: its status code and what \<open>response.json()\<close> does. \<open>json.loads\<close> on the
  span found in the oracle's text gives a dictionary (the span starts with a brace, so a
  successful decode is an object), raises \<open>JSONDecodeError\<close> or raises something else
  (\<open>RecursionError\<close> on deep nesting). Both are fields of the analyzer, next to the flag
  \<open>use_gemini_api\<close> that \<open>_init_ai_clients\<close> sets once.
\<close>

datatype http_outcome = PostRaises exn | Response nat "exn + json"

datatype decode_outcome = Decoded dict | JSONDecodeError string | DecodeRaises exn

record analyzer =
  use_gemini_api :: bool
  http_post :: "string \<Rightarrow> http_outcome"
  json_loads :: "string \<Rightarrow> decode_outcome"

subsection \<open>Prompt templates and the offline responses\<close>

definition analysis_prompt :: "string \<Rightarrow> string \<Rightarrow> string" where
  \<open>analysis_prompt document_text fname =
       ''\<newline>''
     @ ''You are a legal document analysis AI. Analyze the following legal document and provide a structured response.\<newline>''
     @ ''\<newline>''
     @ ''Document: ''
     @ fname
     @ ''\<newline>''
     @ ''Content: ''
     @ document_text
     @ ''\<newline>''
     @ ''\<newline>''
     @ ''Please provide your analysis in the following JSON format:\<newline>''
     @ ''{\<newline>''
     @ ''    "summary": "A clear, plain English summary of the document's main purpose and key terms (2-3 sentences)",\<newline>''
     @ ''    "key_points": [\<newline>''
     @ ''        "First important clause or term explained in simple language",\<newline>''
     @ ''        "Second important clause or term explained in simple language",\<newline>''
     @ ''        "Third important clause or term explained in simple language",\<newline>''
     @ ''        "Fourth important clause or term explained in simple language",\<newline>''
     @ ''        "Fifth important clause or term explained in simple language"\<newline>''
     @ ''    ],\<newline>''
     @ ''    "warnings": [\<newline>''
     @ ''        "Any potentially unfavorable or concerning clauses",\<newline>''
     @ ''        "Unusual terms that might disadvantage the user",\<newline>''
     @ ''        "Important deadlines or obligations to note"\<newline>''
     @ ''    ]\<newline>''
     @ ''}\<newline>''
     @ ''\<newline>''
     @ ''Focus on:\<newline>''
     @ ''1. Making complex legal language understandable\<newline>''
     @ ''2. Identifying the most important terms and obligations\<newline>''
     @ ''3. Highlighting potential risks or unfavorable conditions\<newline>''
     @ ''4. Explaining what the user is agreeing to in plain English\<newline>''
     @ ''\<newline>''
     @ ''Respond only with the JSON format above.\<newline>''\<close>

definition qa_prompt :: "string \<Rightarrow> string \<Rightarrow> string" where
  \<open>qa_prompt document_text question =
       ''\<newline>''
     @ ''You are a legal document Q&A assistant. Answer the user's question based on the provided document.\<newline>''
     @ ''\<newline>''
     @ ''Document Content: ''
     @ document_text
     @ ''\<newline>''
     @ ''\<newline>''
     @ ''User Question: ''
     @ question
     @ ''\<newline>''
     @ ''\<newline>''
     @ ''Please provide your response in the following JSON format:\<newline>''
     @ ''{\<newline>''
     @ ''    "answer": "Clear, direct answer to the user's question based on the document",\<newline>''
     @ ''    "source_section": "The specific section or clause that contains this information (if identifiable)",\<newline>''
     @ ''    "confidence": "high/medium/low based on how clearly the document addresses this question"\<newline>''
     @ ''}\<newline>''
     @ ''\<newline>''
     @ ''Guidelines:\<newline>''
     @ ''1. Only answer based on information actually present in the document\<newline>''
     @ ''2. If the information is not in the document, clearly state that\<newline>''
     @ ''3. Explain legal terms in plain English\<newline>''
     @ ''4. Be specific and cite relevant sections when possible\<newline>''
     @ ''5. If the answer is unclear or ambiguous, indicate that\<newline>''
     @ ''\<newline>''
     @ ''Respond only with the JSON format above.\<newline>''\<close>

definition mock_analysis_text :: "string \<Rightarrow> string" where
  \<open>mock_analysis_text txt =
       ''\<newline>''
     @ ''                {\<newline>''
     @ ''                    "summary": "This legal document contains ''
     @ str_nat (length txt)
     @ '' characters of text with various contractual provisions. The document appears to establish terms and conditions between parties, including rights, obligations, and procedures for compliance.",\<newline>''
     @ ''                    "key_points": [\<newline>''
     @ ''                        "Document contains specific terms and conditions for the agreement",\<newline>''
     @ ''                        "Payment obligations and financial responsibilities are outlined",\<newline>''
     @ ''                        "Liability limitations and risk allocation clauses are present",\<newline>''
     @ ''                        "Termination procedures and conditions are specified",\<newline>''
     @ ''                        "Dispute resolution mechanisms are established"\<newline>''
     @ ''                    ],\<newline>''
     @ ''                    "warnings": [\<newline>''
     @ ''                        "Review all financial obligations and payment terms carefully",\<newline>''
     @ ''                        "Pay attention to liability limitations that may affect your rights",\<newline>''
     @ ''                        "Note any automatic renewal or termination clauses",\<newline>''
     @ ''                        "Consider consulting with a legal professional for complex matters",\<newline>''
     @ ''                        "This is a demo analysis - full AI analysis coming soon"\<newline>''
     @ ''                    ]\<newline>''
     @ ''                }\<newline>''
     @ ''                ''\<close>

definition mock_answer_text :: "string \<Rightarrow> string \<Rightarrow> string" where
  \<open>mock_answer_text document_text question =
       ''\<newline>''
     @ ''                {\<newline>''
     @ ''                    "answer": "Based on the document content, I can see this is a legal document with ''
     @ str_nat (length document_text)
     @ '' characters. Your question ''
     @ [CHR 0x27]
     @ question
     @ [CHR 0x27]
     @ '' relates to the document content. This is a demo response - the full AI analysis system will provide detailed answers to your specific questions about clauses, terms, and conditions.",\<newline>''
     @ ''                    "source_section": "Document Analysis (Demo Mode)",\<newline>''
     @ ''                    "confidence": "medium"\<newline>''
     @ ''                }\<newline>''
     @ ''                ''\<close>

subsection \<open>The oracle call\<close>

text \<open>The statements of \<open>_call_gemini_api\<close> after \<open>result = response.json()\<close>.\<close>

definition read_candidate_text :: "json \<Rightarrow> exn + json" where
  "read_candidate_text result =
     bind_exn (py_contains ''candidates'' result) (\<lambda>has_candidates.
     if \<not> has_candidates then Inr (JStr ''Error: No response generated'') else
     bind_exn (py_getitem_str result ''candidates'') (\<lambda>candidates.
     bind_exn (py_len candidates) (\<lambda>n.
     if \<not> n > 0 then Inr (JStr ''Error: No response generated'') else
     bind_exn (py_getitem_0 candidates) (\<lambda>candidate.
     bind_exn (py_contains ''content'' candidate) (\<lambda>has_content.
     if \<not> has_content then Inr (JStr ''Error: Unexpected response format'') else
     bind_exn (py_getitem_str candidate ''content'') (\<lambda>content.
     bind_exn (py_contains ''parts'' content) (\<lambda>has_parts.
     if \<not> has_parts then Inr (JStr ''Error: Unexpected response format'') else
     bind_exn (py_getitem_str content ''parts'') (\<lambda>parts.
     bind_exn (py_getitem_0 parts) (\<lambda>part.
     py_getitem_str part ''text'')))))))))"

definition call_gemini_api_body :: "analyzer \<Rightarrow> string \<Rightarrow> exn + json" where
  "call_gemini_api_body self prompt =
     (case http_post self prompt of
        PostRaises e \<Rightarrow> Inl e
      | Response status_code response_json \<Rightarrow>
          if status_code = 200 then bind_exn response_json read_candidate_text
          else Inr (JStr (''Error: API call failed ('' @ str_nat status_code @ '')'')))"

text \<open>
  \<open>_call_gemini_api\<close> catches every exception of its body and returns the message as
  text. What it returns is the \<open>text\<close> entry of the payload, a string or not.
\<close>

definition call_gemini_api :: "analyzer \<Rightarrow> string \<Rightarrow> json" where
  "call_gemini_api self prompt =
     (case call_gemini_api_body self prompt of
        Inr v \<Rightarrow> v
      | Inl e \<Rightarrow> JStr (''Error: '' @ str_exn e))"

text \<open>
  Vocabulary for the properties, written from the kinds of oracle failure and not from
  the code above: the request raised (unreachable host, timeout), the status is not 200,
  \<open>response.json()\<close> raised, or the payload is an object that lacks \<open>candidates\<close>, has
  an empty \<open>candidates\<close> list, or whose first candidate lacks \<open>content\<close> or whose
  content lacks \<open>parts\<close>. \<open>oracle_failure_text\<close> is the text that stands for the
  failure; it is \<open>None\<close> for every other outcome.
\<close>

definition payload_failure_text :: "json \<Rightarrow> string option" where
  "payload_failure_text payload =
     (case payload of
        JObj d \<Rightarrow>
          (case map_of d ''candidates'' of
             None \<Rightarrow> Some ''Error: No response generated''
           | Some (JArr []) \<Rightarrow> Some ''Error: No response generated''
           | Some (JArr (JObj candidate # others)) \<Rightarrow>
               (case map_of candidate ''content'' of
                  None \<Rightarrow> Some ''Error: Unexpected response format''
                | Some (JObj content) \<Rightarrow>
                    if map_of content ''parts'' = None
                    then Some ''Error: Unexpected response format'' else None
                | Some other \<Rightarrow> None)
           | Some other \<Rightarrow> None)
      | other \<Rightarrow> None)"

fun oracle_failure_text :: "http_outcome \<Rightarrow> string option" where
  "oracle_failure_text (PostRaises e) = Some (''Error: '' @ str_exn e)"
| "oracle_failure_text (Response status_code response_json) =
     (if status_code \<noteq> 200
      then Some (''Error: API call failed ('' @ str_nat status_code @ '')'')
      else (case response_json of
              Inl e \<Rightarrow> Some (''Error: '' @ str_exn e)
            | Inr payload \<Rightarrow> payload_failure_text payload))"

subsection \<open>Response parsing\<close>

text \<open>
  \<open>re.search(r'\{.*\}', s, re.DOTALL)\<close>: the leftmost match starts at the first opening
  brace and, the star being greedy and the dot matching line breaks, ends at the last
  closing brace after it. \<open>None\<close> when there is no such pair.
\<close>

definition find_json_span :: "string \<Rightarrow> string option" where
  "find_json_span s =
     (case dropWhile (\<lambda>c. c \<noteq> CHR ''{'') s of
        [] \<Rightarrow> None
      | b # rest \<Rightarrow>
          (let upto_last = rev (dropWhile (\<lambda>c. c \<noteq> CHR ''}'') (rev rest)) in
           if upto_last = [] then None else Some (b # upto_last)))"

definition fallback_parse_analysis :: "string \<Rightarrow> dict" where
  "fallback_parse_analysis response_text =
     [(''summary'', JStr (if length response_text > 500 then take 500 response_text @ ''...''
                          else response_text)),
      (''key_points'', JArr [JStr ''Document analysis completed'',
                             JStr ''Please review the full response above'',
                             JStr ''Contact support if you need clarification'']),
      (''warnings'', JArr [JStr ''Analysis format may not be optimal'',
                           JStr ''Please verify important details independently''])]"

text \<open>\<open>if field not in result: result[field] = v\<close>.\<close>

definition ensure_field :: "string \<Rightarrow> json \<Rightarrow> dict \<Rightarrow> dict" where
  "ensure_field field v result =
     (if field \<notin> fst ` set result then AList.update field v result else result)"

text \<open>
  \<open>_parse_analysis_response\<close> and \<open>_parse_qa_response\<close>. \<open>re.search\<close> raises
  \<open>TypeError\<close> on a value that is not a string; only \<open>JSONDecodeError\<close> is caught here.
  The message of the \<open>TypeError\<close> is the interpreter's (CPython from 3.11 on appends the
  type of the value); no property depends on its wording.
\<close>

definition parse_analysis_response :: "analyzer \<Rightarrow> json \<Rightarrow> exn + dict" where
  "parse_analysis_response self response =
     (case response of
        JStr response_text \<Rightarrow>
          (case find_json_span response_text of
             Some json_str \<Rightarrow>
               (case json_loads self json_str of
                  Decoded result \<Rightarrow>
                    Inr (fold (\<lambda>field. ensure_field field (JArr []))
                           [''summary'', ''key_points'', ''warnings''] result)
                | JSONDecodeError m \<Rightarrow> Inr (fallback_parse_analysis response_text)
                | DecodeRaises e \<Rightarrow> Inl e)
           | None \<Rightarrow> Inr (fallback_parse_analysis response_text))
      | _ \<Rightarrow> Inl (Raised ''expected string or bytes-like object''))"

definition parse_qa_response :: "analyzer \<Rightarrow> json \<Rightarrow> exn + dict" where
  "parse_qa_response self response =
     (case response of
        JStr response_text \<Rightarrow>
          (case find_json_span response_text of
             Some json_str \<Rightarrow>
               (case json_loads self json_str of
                  Decoded result \<Rightarrow>
                    Inr (ensure_field ''confidence'' (JStr ''medium'')
                          (ensure_field ''source_section'' JNull
                            (ensure_field ''answer'' (JStr response_text) result)))
                | JSONDecodeError m \<Rightarrow>
                    Inr [(''answer'', JStr response_text), (''source_section'', JNull),
                         (''confidence'', JStr ''low'')]
                | DecodeRaises e \<Rightarrow> Inl e)
           | None \<Rightarrow>
               Inr [(''answer'', JStr response_text), (''source_section'', JNull),
                    (''confidence'', JStr ''medium'')])
      | _ \<Rightarrow> Inl (Raised ''expected string or bytes-like object''))"

subsection \<open>The two operations\<close>

text \<open>
  \<open>analysis_text\<close> and \<open>answer_text\<close> are the variables of these names: the oracle's
  raw response, or the offline response when no key is configured. The document text is
  cut to its first 8000 characters for the prompt; \<open>filename or "document"\<close> replaces a
  missing or empty name.
\<close>

definition analysis_text :: "analyzer \<Rightarrow> string \<Rightarrow> string option \<Rightarrow> json" where
  "analysis_text self txt fname =
     (let prompt = analysis_prompt (take 8000 txt)
                     (case fname of None \<Rightarrow> ''document''
                      | Some f \<Rightarrow> if f = [] then ''document'' else f)
      in if use_gemini_api self then call_gemini_api self prompt
         else JStr (mock_analysis_text txt))"

definition analyze_document_body :: "analyzer \<Rightarrow> string \<Rightarrow> string option \<Rightarrow> exn + dict" where
  "analyze_document_body self txt fname =
     parse_analysis_response self (analysis_text self txt fname)"

definition analyze_document :: "analyzer \<Rightarrow> string \<Rightarrow> string option \<Rightarrow> exn + dict" where
  "analyze_document self txt fname =
     (case analyze_document_body self txt fname of
        Inr result \<Rightarrow> Inr result
      | Inl e \<Rightarrow>
          Inr [(''summary'', JStr ''Analysis failed due to technical error''),
               (''key_points'', JArr [JStr ''Unable to analyze document at this time'']),
               (''warnings'', JArr [JStr ''Please try again later or contact support'']),
               (''error'', JStr (str_exn e))])"

definition answer_text :: "analyzer \<Rightarrow> string \<Rightarrow> string \<Rightarrow> json" where
  "answer_text self document_text question =
     (let prompt = qa_prompt (take 8000 document_text) question
      in if use_gemini_api self then call_gemini_api self prompt
         else JStr (mock_answer_text document_text question))"

definition answer_question_body :: "analyzer \<Rightarrow> string \<Rightarrow> string \<Rightarrow> exn + dict" where
  "answer_question_body self document_text question =
     parse_qa_response self (answer_text self document_text question)"

definition answer_question :: "analyzer \<Rightarrow> string \<Rightarrow> string \<Rightarrow> exn + dict" where
  "answer_question self document_text question =
     (case answer_question_body self document_text question of
        Inr result \<Rightarrow> Inr result
      | Inl e \<Rightarrow>
          Inr [(''answer'', JStr ''Unable to answer question due to technical error''),
               (''source_section'', JNull),
               (''confidence'', JStr ''low''),
               (''error'', JStr (str_exn e))])"

subsection \<open>Sample oracles\<close>

text \<open>
  \<open>gemini_reply v\<close> is a response of status 200 in the service's wire format whose
  generated \<open>text\<close> is \<open>v\<close>. \<open>sample_loads\<close> is \<open>json.loads\<close> on the two payloads used
  below; the samples decode no other span.
\<close>

definition gemini_reply :: "json \<Rightarrow> http_outcome" where
  "gemini_reply v =
     Response 200 (Inr (JObj [(''candidates'',
       JArr [JObj [(''content'', JObj [(''parts'', JArr [JObj [(''text'', v)]])])]])]))"

definition sample_loads :: "string \<Rightarrow> decode_outcome" where
  \<open>sample_loads s =
     (if s = ''{"key_points": ["Rent is due monthly"], "warnings": []}''
      then Decoded [(''key_points'', JArr [JStr ''Rent is due monthly'']), (''warnings'', JArr [])]
      else if s = ''{"answer": "Yes", "confidence": "certain"}''
      then Decoded [(''answer'', JStr ''Yes''), (''confidence'', JStr ''certain'')]
      else JSONDecodeError ''Expecting property name enclosed in double quotes'')\<close>

definition oracle_saying :: "json \<Rightarrow> analyzer" where
  "oracle_saying v =
     \<lparr>use_gemini_api = True, http_post = (\<lambda>prompt. gemini_reply v), json_loads = sample_loads\<rparr>"

definition server_error_oracle :: analyzer where
  "server_error_oracle =
     \<lparr>use_gemini_api = True,
      http_post = (\<lambda>prompt. Response 500 (Inr (JObj [(''error'', JStr ''internal'')]))),
      json_loads = sample_loads\<rparr>"

definition no_candidates_oracle :: analyzer where
  "no_candidates_oracle =
     \<lparr>use_gemini_api = True,
      http_post = (\<lambda>prompt. Response 200 (Inr (JObj [(''promptFeedback'', JObj [])]))),
      json_loads = sample_loads\<rparr>"

definition unreachable_oracle :: analyzer where
  "unreachable_oracle =
     \<lparr>use_gemini_api = True, http_post = (\<lambda>prompt. PostRaises (Raised ''Connection refused'')),
      json_loads = sample_loads\<rparr>"

section \<open>Properties of the store\<close>

lemma fold_delete_filter:
  "fold AList.delete ids docs = filter (\<lambda>(k, d). k \<notin> set ids) docs"
proof (induction ids arbitrary: docs)
  case Nil
  then show ?case by simp
next
  case (Cons i ids)
  have "filter (\<lambda>(k, d). k \<notin> set ids) (AList.delete i docs)
        = filter (\<lambda>(k, d). k \<notin> set (i # ids)) docs"
    by (induction docs) (auto simp: AList.delete_eq)
  with Cons show ?case by simp
qed

lemma expired_ids_member:
  assumes "distinct (map fst docs)" and "(k, d) \<in> set docs"
  shows "k \<in> set (expired_ids now docs) \<longleftrightarrow> now > expires_at d"
proof
  assume "k \<in> set (expired_ids now docs)"
  then obtain d' where d': "(k, d') \<in> set docs" "now > expires_at d'"
    by (auto simp: expired_ids_def)
  from assms d'(1) have "d' = d"
    by (meson eq_key_imp_eq_value)
  with d'(2) show "now > expires_at d" by simp
next
  assume "now > expires_at d"
  with assms(2) show "k \<in> set (expired_ids now docs)"
    by (force simp: expired_ids_def)
qed

lemma sweep_filter:
  assumes "distinct (map fst docs)"
  shows "fold AList.delete (expired_ids now docs) docs
         = filter (\<lambda>(k, d). \<not> now > expires_at d) docs"
proof -
  have "filter (\<lambda>(k, d). k \<notin> set (expired_ids now docs)) docs
        = filter (\<lambda>(k, d). \<not> now > expires_at d) docs"
    by (rule filter_cong) (use assms expired_ids_member in auto)
  then show ?thesis by (simp add: fold_delete_filter)
qed


lemma wf_sample_storage: "wf_storage sample_storage"
  by (simp add: wf_storage_def sample_storage_def)

lemma lookup_sample_storage: "map_of (documents sample_storage) ''d1'' = Some sample_doc"
  by (simp add: sample_storage_def)

text \<open>
  Claim C2, as stated, at the boundary: the sample document expires at instant 100, and
  at \<open>now = 100\<close> \<open>get_document\<close> still returns it, \<open>update_analysis\<close> still succeeds
  and the sweep removes nothing.
\<close>

theorem C2_boundary_counterexample:
  "snd (get_document (expires_at sample_doc) ''d1'' sample_storage) = Some sample_doc
   \<and> snd (update_analysis (expires_at sample_doc) ''d1'' [] sample_storage) = True
   \<and> cleanup_expired (expires_at sample_doc) sample_storage = (sample_storage, 0)"
  by (simp add: get_document_def update_analysis_def cleanup_expired_def expired_ids_def
      sample_storage_def)

text \<open>
  Claim C2, amended: the three operations that test expiry use the strict comparison
  \<open>now > expires_at\<close>. A stored document is absent to \<open>get_document\<close> and refused by
  \<open>update_analysis\<close> exactly when \<open>expires_at < now\<close>, so at the boundary instant
  \<open>now = expires_at\<close> it is still live; \<open>cleanup_expired\<close> removes exactly the entries
  with \<open>expires_at < now\<close>, keeps every other entry in place, and returns the number removed.
\<close>

theorem C2_strict_expiry:
  assumes "wf_storage st" and "map_of (documents st) i = Some d"
  shows "(snd (get_document now i st) = None \<longleftrightarrow> expires_at d < now)
       \<and> (snd (get_document now i st) = Some d \<longleftrightarrow> now \<le> expires_at d)
       \<and> (snd (update_analysis now i r st) \<longleftrightarrow> now \<le> expires_at d)
       \<and> documents (fst (cleanup_expired now st))
           = filter (\<lambda>(k, doc). now \<le> expires_at doc) (documents st)
       \<and> snd (cleanup_expired now st)
           = length (filter (\<lambda>(k, doc). expires_at doc < now) (documents st))"
proof -
  have get: "snd (get_document now i st) = (if expires_at d < now then None else Some d)"
    using assms(2) by (simp add: get_document_def)
  have upd: "snd (update_analysis now i r st) = (\<not> expires_at d < now)"
    using assms(2) by (simp add: update_analysis_def)
  have keep: "(\<lambda>(k, doc). \<not> expires_at doc < now) = (\<lambda>(k::string, doc). now \<le> expires_at doc)"
    by (auto simp: fun_eq_iff)
  have sweep: "documents (fst (cleanup_expired now st))
               = filter (\<lambda>(k, doc). now \<le> expires_at doc) (documents st)"
    using assms(1) sweep_filter [of "documents st" now]
    by (simp add: cleanup_expired_def wf_storage_def Let_def keep)
  have count: "snd (cleanup_expired now st)
               = length (filter (\<lambda>(k, doc). expires_at doc < now) (documents st))"
    by (simp add: cleanup_expired_def expired_ids_def Let_def)
  from get upd sweep count show ?thesis by auto
qed

theorem C2_strict_expiry_witness:
  "wf_storage sample_storage \<and> map_of (documents sample_storage) ''d1'' = Some sample_doc
   \<and> snd (get_document 100 ''d1'' sample_storage) = Some sample_doc
   \<and> snd (get_document 101 ''d1'' sample_storage) = None
   \<and> documents (fst (cleanup_expired 101 sample_storage)) = []"
proof -
  note h1 = wf_sample_storage and h2 = lookup_sample_storage
  have e: "expires_at sample_doc = 100" by (simp add: sample_doc_def)
  have fl: "filter (\<lambda>(k, doc). (101::int) \<le> expires_at doc) (documents sample_storage) = []"
    by (simp add: sample_storage_def sample_doc_def)
  from C2_strict_expiry [OF h1 h2, of 100 "[]"] C2_strict_expiry [OF h1 h2, of 101 "[]"]
  show ?thesis using h1 h2 e fl by simp
qed

text \<open>
  Claim C8, as stated, fails when the clock moves between the two readings that
  \<open>store_document\<close> takes: with the first reading 0, the second reading 1 (one microsecond
  later) and a timeout of 3600 seconds, the stored \<open>expires_at\<close> is 3600000000 while
  \<open>created_at + session_timeout\<close> is 3600000001.
\<close>

theorem C8_counterexample:
  "fst (store_document 0 1 ''d2'' ''Rent: $1200'' None (init_storage 3600))
     = \<lparr>documents = [(''d2'', \<lparr>doc_text = ''Rent: $1200'', filename = None, created_at = 1,
                         expires_at = 3600000000, analysis_result = None\<rparr>)],
        session_timeout = 3600\<rparr>
   \<and> (3600000000 :: int) \<noteq> 1 + timedelta_seconds 3600"
  by (simp add: store_document_def init_storage_def timedelta_seconds_def)

text \<open>
  Claim C8, amended: for every document inserted by \<open>store_document\<close>, the stored
  \<open>expires_at\<close> equals the clock reading taken when \<open>expires_at\<close> is computed plus the
  configured \<open>session_timeout\<close>; the stored \<open>created_at\<close> is a second, later reading of
  the clock, so \<open>expires_at = created_at + session_timeout\<close> holds exactly when the two
  readings are the same instant.
\<close>

theorem C8_expires_at_from_first_reading:
  "\<exists>d. map_of (documents (fst (store_document t_expiry t_created i txt fname st))) i = Some d
       \<and> created_at d = t_created
       \<and> expires_at d = t_expiry + timedelta_seconds (session_timeout st)
       \<and> (expires_at d = created_at d + timedelta_seconds (session_timeout st)
            \<longleftrightarrow> t_expiry = t_created)"
  by (simp add: store_document_def Let_def AList.update_conv')

text \<open>
  Claim C10: whenever \<open>update_analysis\<close> returns true, the document was stored and
  unexpired, its \<open>analysis_result\<close> becomes the given result while its text, filename,
  \<open>created_at\<close> and \<open>expires_at\<close> are unchanged, every other identifier maps to the
  document it mapped to before, the order of the keys is unchanged and so is the
  configured timeout.
\<close>

theorem C10_update_analysis_frame:
  assumes "update_analysis now i r st = (st', True)"
  shows "\<exists>d. map_of (documents st) i = Some d
       \<and> map_of (documents st') i = Some (d\<lparr>analysis_result := Some r\<rparr>)
       \<and> (\<forall>k. k \<noteq> i \<longrightarrow> map_of (documents st') k = map_of (documents st) k)
       \<and> map fst (documents st') = map fst (documents st)
       \<and> session_timeout st' = session_timeout st"
proof (cases "map_of (documents st) i")
  case None
  with assms show ?thesis by (simp add: update_analysis_def)
next
  case (Some d)
  with assms have live: "\<not> expires_at d < now"
    and st': "st' = st\<lparr>documents := AList.update i (d\<lparr>analysis_result := Some r\<rparr>) (documents st)\<rparr>"
    by (auto simp: update_analysis_def split: if_splits)
  from Some have "i \<in> fst ` set (documents st)"
    by (auto dest: map_of_SomeD intro: rev_image_eqI)
  then have keys: "map fst (AList.update i (d\<lparr>analysis_result := Some r\<rparr>) (documents st))
                   = map fst (documents st)"
    by (simp add: AList.update_keys)
  from Some st' keys show ?thesis
    by (simp add: AList.update_conv')
qed

theorem C10_update_analysis_frame_witness:
  "update_analysis 50 ''d1'' [(''summary'', JStr ''ok'')] sample_storage
     = (\<lparr>documents = [(''d1'', sample_doc\<lparr>analysis_result := Some [(''summary'', JStr ''ok'')]\<rparr>)],
         session_timeout = 3600\<rparr>, True)
   \<and> (\<exists>d. map_of (documents sample_storage) ''d1'' = Some d
        \<and> doc_text d = ''Rent: $1200'' \<and> expires_at d = 100)"
proof -
  have run: "update_analysis 50 ''d1'' [(''summary'', JStr ''ok'')] sample_storage
     = (\<lparr>documents = [(''d1'', sample_doc\<lparr>analysis_result := Some [(''summary'', JStr ''ok'')]\<rparr>)],
         session_timeout = 3600\<rparr>, True)"
    by (simp add: update_analysis_def sample_storage_def sample_doc_def)
  from C10_update_analysis_frame [OF run] obtain d where
    "map_of (documents sample_storage) ''d1'' = Some d" by blast
  moreover from this have "d = sample_doc" by (simp add: sample_storage_def)
  ultimately show ?thesis using run by (simp add: sample_doc_def)
qed

section \<open>Properties of the extractor\<close>

lemma extract_page_append:
  "extract_page pages acc i
   = acc @ (if has_text (pages ! i) then [page_block i (page_text (pages ! i))] else [])"
  by (cases "pages ! i" rule: has_text.cases) (simp_all add: extract_page_def)

lemma foldl_extract_page:
  "foldl (extract_page pages) acc [0..<n]
   = acc @ map (\<lambda>i. page_block i (page_text (pages ! i)))
             (filter (\<lambda>i. has_text (pages ! i)) [0..<n])"
  by (induction n) (simp_all add: extract_page_append)

lemma extract_pages_blocks:
  "extract_pages pages
   = map (\<lambda>i. page_block i (page_text (pages ! i))) (text_page_indices pages)"
  by (simp add: extract_pages_def text_page_indices_def foldl_extract_page)

lemma str_nat_nonempty: "str_nat n \<noteq> []"
  by (subst str_nat.simps) simp

lemma dropWhile_append_keeps:
  "ys \<noteq> [] \<Longrightarrow> \<not> P (hd ys) \<Longrightarrow> length ys \<le> length (dropWhile P (xs @ ys))"
  by (induction xs) (auto simp: neq_Nil_conv)

lemma py_strip_keeps_prefix:
  assumes "p \<noteq> []" and "\<not> is_space (hd p)" and "\<not> is_space (last p)"
  shows "length p \<le> length (py_strip (p @ q))"
proof -
  from assms(1,2) have "dropWhile is_space (p @ q) = p @ q"
    by (cases p) auto
  moreover have "length (rev p) \<le> length (dropWhile is_space (rev q @ rev p))"
    using assms(1,3) by (intro dropWhile_append_keeps) (auto simp: hd_rev)
  ultimately show ?thesis by (simp add: py_strip_def)
qed

lemma page_block_split:
  "page_block i t = (''--- Page '' @ str_nat (i + 1) @ '' ---'') @ (''\<newline>'' @ t @ ''\<newline>'')"
  by (simp add: page_block_def)

lemma join_str_Cons: "\<exists>r. join_str sep (x # xs) = x @ r"
  by (cases xs) auto

lemma marker_long: "10 \<le> length (''--- Page '' @ str_nat n @ '' ---'')"
  using str_nat_nonempty [of n] by (cases "str_nat n") auto

lemma strip_blocks_long:
  assumes "extract_pages pages \<noteq> []"
  shows "min_text_length \<le> length (py_strip (join_str ''\<newline>'' (extract_pages pages)))"
proof -
  from assms obtain i rest where "text_page_indices pages = i # rest"
    by (auto simp: extract_pages_blocks neq_Nil_conv)
  then obtain r where
    "join_str ''\<newline>'' (extract_pages pages) = page_block i (page_text (pages ! i)) @ r"
    using join_str_Cons by (fastforce simp: extract_pages_blocks)
  then have eq: "join_str ''\<newline>'' (extract_pages pages)
      = (''--- Page '' @ str_nat (i + 1) @ '' ---'') @ (''\<newline>'' @ page_text (pages ! i) @ ''\<newline>'' @ r)"
    by (simp add: page_block_def)
  have "length (''--- Page '' @ str_nat (i + 1) @ '' ---'')
        \<le> length (py_strip ((''--- Page '' @ str_nat (i + 1) @ '' ---'')
              @ (''\<newline>'' @ page_text (pages ! i) @ ''\<newline>'' @ r)))"
    by (rule py_strip_keeps_prefix) (simp_all add: is_space_def)
  with marker_long [of "i + 1"] eq show ?thesis
    by (simp add: min_text_length_def)
qed

lemma extract_with_Pages:
  "extract_with lib (Pages pages)
   = (if extract_pages pages = [] then (False, [], Some ''No readable text found in PDF'')
      else (True, join_str ''\<newline>'' (extract_pages pages), None))"
proof (cases "extract_pages pages = []")
  case True
  then show ?thesis by (simp add: extract_with_def py_strip_def min_text_length_def)
next
  case False
  from strip_blocks_long [OF False] False show ?thesis
    by (simp add: extract_with_def Let_def)
qed

lemma text_page_indices_bounds:
  "sorted_wrt (<) (text_page_indices pages)
   \<and> (\<forall>i \<in> set (text_page_indices pages). i < length pages \<and> i < max_pages \<and> has_text (pages ! i))
   \<and> length (text_page_indices pages) \<le> max_pages"
proof -
  have "sorted_wrt (<) (text_page_indices pages)"
    unfolding text_page_indices_def by (rule sorted_wrt_filter) simp
  moreover have "length (text_page_indices pages) \<le> length [0..<min (length pages) max_pages]"
    unfolding text_page_indices_def by (rule length_filter_le)
  ultimately show ?thesis by (auto simp: text_page_indices_def)
qed

lemma text_page_indices_all:
  assumes "\<forall>i < min (length pages) max_pages. has_text (pages ! i)"
  shows "text_page_indices pages = [0..<min (length pages) max_pages]"
  unfolding text_page_indices_def using assms by (intro filter_True) simp

lemma extract_with_view_text:
  "extract_with lib p
   = (case view_text p of
        Some t \<Rightarrow> (True, t, None)
      | None \<Rightarrow> (False, [],
          Some (case p of OpenRaises e \<Rightarrow> lib @ '' error: '' @ str_exn e
                | Pages pages \<Rightarrow> ''No readable text found in PDF'')))"
proof (cases p)
  case (OpenRaises e)
  then show ?thesis by (simp add: extract_with_def view_text_def)
next
  case (Pages pages)
  then show ?thesis
    by (simp add: extract_with_Pages view_text_def extract_pages_blocks)
qed

lemma view_text_long: "view_text p = Some t \<Longrightarrow> min_text_length \<le> length (py_strip t)"
  using strip_blocks_long
  by (auto simp: view_text_def extract_pages_blocks split: pdf.splits if_splits)

lemma bytes_attempt_view_text: "bytes_attempt p = view_text p"
proof (cases p)
  case (OpenRaises e)
  then show ?thesis by (simp add: bytes_attempt_def view_text_def)
next
  case (Pages pages)
  show ?thesis
  proof (cases "extract_pages pages = []")
    case True
    with Pages show ?thesis
      by (simp add: bytes_attempt_def view_text_def extract_pages_blocks py_strip_def
          min_text_length_def)
  next
    case False
    with Pages strip_blocks_long [OF False] show ?thesis
      by (simp add: bytes_attempt_def view_text_def extract_pages_blocks Let_def)
  qed
qed

text \<open>
  Claim C3, as stated, fails on the raw-bytes entry point: on a corrupt input
  \<open>extract_text_from_bytes\<close> raises instead of returning a negative result.
\<close>

theorem C3_bytes_counterexample:
  "extract_text_from_bytes corrupt_bytes
   = Inl (Raised ''Failed to extract text from PDF: Document appears to be empty or contains only images'')"
  by (simp add: extract_text_from_bytes_def extract_text_from_bytes_body_def bytes_attempt_def
      corrupt_bytes_def)

text \<open>
  Claim C3, amended: the file-like entry point \<open>extract_text\<close> never raises and always
  returns a triple. When a \<open>seek(0)\<close> raises, and when neither library can read text
  from the document (opening it raises, or no visited page has text), the triple is
  \<open>success = False\<close> with empty text and a non-empty error string; otherwise it is
  \<open>success = True\<close> with the text of the first library that can read it and no error.
  The raw-bytes entry point \<open>extract_text_from_bytes\<close> returns that same text as a
  plain string, and when neither library can read text it raises \<open>Exception\<close> with the
  message "Failed to extract text from PDF: Document appears to be empty or contains
  only images", as its docstring announces. Every text returned on success has at least
  ten characters after stripping.
\<close>

theorem C3_extractor_results:
  "extract_text file
     = Inr (case first_seek file of
              Some e \<Rightarrow> (False, [], Some (''Error processing PDF: '' @ str_exn e))
            | None \<Rightarrow>
               (case view_text (plumber_view file) of
                  Some t \<Rightarrow> (True, t, None)
                | None \<Rightarrow>
                   (case second_seek file of
                      Some e \<Rightarrow> (False, [], Some (''Error processing PDF: '' @ str_exn e))
                    | None \<Rightarrow>
                       (case view_text (pypdf2_view file) of
                          Some t \<Rightarrow> (True, t, None)
                        | None \<Rightarrow> (False, [],
                            Some ''Document appears to be empty or contains only images'')))))
   \<and> extract_text_from_bytes pdf_bytes
     = (case view_text (plumber_view pdf_bytes) of
          Some t \<Rightarrow> Inr t
        | None \<Rightarrow>
           (case view_text (pypdf2_view pdf_bytes) of
              Some t \<Rightarrow> Inr t
            | None \<Rightarrow> Inl (Raised ''Failed to extract text from PDF: Document appears to be empty or contains only images'')))
   \<and> (view_text (plumber_view file) = None \<and> view_text (pypdf2_view file) = None \<longrightarrow>
        (\<exists>m. extract_text file = Inr (False, [], Some m) \<and> m \<noteq> []))
   \<and> (view_text (plumber_view pdf_bytes) = None \<and> view_text (pypdf2_view pdf_bytes) = None \<longrightarrow>
        extract_text_from_bytes pdf_bytes
        = Inl (Raised ''Failed to extract text from PDF: Document appears to be empty or contains only images''))
   \<and> (\<exists>success t error. extract_text file = Inr (success, t, error)
        \<and> (\<not> success \<longrightarrow> t = [] \<and> (\<exists>m. error = Some m \<and> m \<noteq> []))
        \<and> (success \<longrightarrow> error = None \<and> min_text_length \<le> length (py_strip t)))
   \<and> (\<forall>t. extract_text_from_bytes pdf_bytes = Inr t \<longrightarrow> min_text_length \<le> length (py_strip t))"
proof -
  have upl: "extract_text file
     = Inr (case first_seek file of
              Some e \<Rightarrow> (False, [], Some (''Error processing PDF: '' @ str_exn e))
            | None \<Rightarrow>
               (case view_text (plumber_view file) of
                  Some t \<Rightarrow> (True, t, None)
                | None \<Rightarrow>
                   (case second_seek file of
                      Some e \<Rightarrow> (False, [], Some (''Error processing PDF: '' @ str_exn e))
                    | None \<Rightarrow>
                       (case view_text (pypdf2_view file) of
                          Some t \<Rightarrow> (True, t, None)
                        | None \<Rightarrow> (False, [],
                            Some ''Document appears to be empty or contains only images'')))))"
    using view_text_long [of "plumber_view file"] view_text_long [of "pypdf2_view file"]
    by (auto simp: extract_text_def extract_text_body_def extract_with_pdfplumber_def
        extract_with_pypdf2_def extract_with_view_text py_strip_def min_text_length_def
        split: option.splits)
  have bytes: "extract_text_from_bytes pdf_bytes
     = (case view_text (plumber_view pdf_bytes) of
          Some t \<Rightarrow> Inr t
        | None \<Rightarrow>
           (case view_text (pypdf2_view pdf_bytes) of
              Some t \<Rightarrow> Inr t
            | None \<Rightarrow> Inl (Raised ''Failed to extract text from PDF: Document appears to be empty or contains only images'')))"
    by (simp add: extract_text_from_bytes_def extract_text_from_bytes_body_def
        bytes_attempt_view_text split: option.splits)
  have neg: "view_text (plumber_view file) = None \<and> view_text (pypdf2_view file) = None \<longrightarrow>
        (\<exists>m. extract_text file = Inr (False, [], Some m) \<and> m \<noteq> [])"
    unfolding upl by (auto split: option.splits)
  have rais: "view_text (plumber_view pdf_bytes) = None \<and> view_text (pypdf2_view pdf_bytes) = None \<longrightarrow>
        extract_text_from_bytes pdf_bytes
        = Inl (Raised ''Failed to extract text from PDF: Document appears to be empty or contains only images'')"
    unfolding bytes by simp
  have shape: "\<exists>success t error. extract_text file = Inr (success, t, error)
        \<and> (\<not> success \<longrightarrow> t = [] \<and> (\<exists>m. error = Some m \<and> m \<noteq> []))
        \<and> (success \<longrightarrow> error = None \<and> min_text_length \<le> length (py_strip t))"
    unfolding upl
    using view_text_long [of "plumber_view file"] view_text_long [of "pypdf2_view file"]
    by (auto split: option.splits)
  have long: "\<forall>t. extract_text_from_bytes pdf_bytes = Inr t \<longrightarrow> min_text_length \<le> length (py_strip t)"
    unfolding bytes
    using view_text_long [of "plumber_view pdf_bytes"] view_text_long [of "pypdf2_view pdf_bytes"]
    by (auto split: option.splits)
  from upl bytes neg rais shape long show ?thesis by blast
qed

text \<open>
  Cases of C3: a corrupt upload, an upload whose stream cannot be rewound, a scanned
  document without text layer given as bytes, and a two-page document given as bytes.
\<close>

theorem C3_extractor_results_witness:
  "view_text (plumber_view corrupt_upload) = None \<and> view_text (pypdf2_view corrupt_upload) = None
   \<and> extract_text corrupt_upload
     = Inr (False, [], Some ''Document appears to be empty or contains only images'')
   \<and> extract_text unseekable_upload
     = Inr (False, [], Some ''Error processing PDF: I/O operation on closed file.'')
   \<and> view_text (plumber_view scanned_bytes) = None \<and> view_text (pypdf2_view scanned_bytes) = None
   \<and> extract_text_from_bytes scanned_bytes
     = Inl (Raised ''Failed to extract text from PDF: Document appears to be empty or contains only images'')
   \<and> (\<exists>t. extract_text_from_bytes two_page_file = Inr t \<and> min_text_length \<le> length (py_strip t))"
proof -
  have v1: "view_text (plumber_view corrupt_upload) = None \<and> view_text (pypdf2_view corrupt_upload) = None"
    by (simp add: view_text_def corrupt_upload_def)
  have v2: "view_text (plumber_view scanned_bytes) = None \<and> view_text (pypdf2_view scanned_bytes) = None"
    by (simp add: view_text_def scanned_bytes_def text_page_indices_def max_pages_def upt_conv_Cons)
  have s: "first_seek corrupt_upload = None \<and> second_seek corrupt_upload = None
           \<and> first_seek unseekable_upload = Some (Raised ''I/O operation on closed file.'')"
    by (simp add: corrupt_upload_def unseekable_upload_def)
  have v3: "view_text (plumber_view two_page_file) \<noteq> None"
    by (simp add: view_text_def two_page_file_def text_page_indices_def two_pages_def
        max_pages_def upt_conv_Cons)
  from C3_extractor_results [of corrupt_upload scanned_bytes]
    C3_extractor_results [of unseekable_upload two_page_file] v1 v2 v3 s
  show ?thesis by (auto split: option.splits)
qed

text \<open>
  Claim C7, as stated, fails for a readable document of 51 pages whose first page has no
  text layer: extraction succeeds, but the text holds 49 page blocks, not 50.
\<close>

theorem C7_counterexample:
  "length scanned_first_page = 51
   \<and> fst (extract_with_pdfplumber scanned_first_page_file)
   \<and> length (extract_pages scanned_first_page) = 49"
proof -
  have "length (text_page_indices scanned_first_page) = 49"
    by code_simp
  then have len: "length (extract_pages scanned_first_page) = 49"
    by (simp add: extract_pages_blocks)
  then have "extract_pages scanned_first_page \<noteq> []" by auto
  then have "fst (extract_with_pdfplumber scanned_first_page_file)"
    by (simp add: extract_with_pdfplumber_def scanned_first_page_file_def extract_with_Pages)
  with len show ?thesis by (simp add: scanned_first_page_def)
qed

text \<open>
  Claim C7, amended: for every readable PDF, only the first 50 pages are visited, and
  the text returned on success is the per-page blocks of the visited pages whose
  extraction returned a non-empty string, each block being the marker
  \<open>--- Page <n> ---\<close> (\<open>n\<close> the page's position in the source, counted from 1), a line
  break, the page's text and a line break, joined by a line break in ascending source
  page order. Pages without text and pages whose extraction raised are skipped, so there
  are at most 50 markers; there are exactly \<open>N\<close> markers when the document has \<open>N \<le> 50\<close>
  pages and all of them have text, and exactly 50 when it has more than 50 pages and the
  first 50 all have text.
\<close>

theorem C7_page_blocks:
  assumes "plumber_view file = Pages pages"
    and "extract_with_pdfplumber file = (True, txt, error)"
  shows "txt = join_str ''\<newline>''
                 (map (\<lambda>i. page_block i (page_text (pages ! i))) (text_page_indices pages))
     \<and> error = None
     \<and> sorted_wrt (<) (text_page_indices pages)
     \<and> (\<forall>i \<in> set (text_page_indices pages). i < length pages \<and> i < 50 \<and> has_text (pages ! i))
     \<and> length (text_page_indices pages) \<le> 50
     \<and> ((\<forall>i < min (length pages) 50. has_text (pages ! i))
          \<longrightarrow> length (text_page_indices pages) = min (length pages) 50)"
proof -
  from assms have "txt = join_str ''\<newline>'' (extract_pages pages) \<and> error = None"
    by (auto simp: extract_with_pdfplumber_def extract_with_Pages split: if_splits)
  moreover have "(\<forall>i < min (length pages) 50. has_text (pages ! i))
          \<longrightarrow> length (text_page_indices pages) = min (length pages) 50"
    using text_page_indices_all [of pages] by (simp add: max_pages_def)
  ultimately show ?thesis
    using text_page_indices_bounds [of pages]
    by (simp add: extract_pages_blocks max_pages_def)
qed

theorem C7_page_blocks_witness:
  "plumber_view two_page_file = Pages two_pages
   \<and> extract_with_pdfplumber two_page_file
       = (True, ''--- Page 1 ---\<newline>Rent: $1200\<newline>\<newline>--- Page 2 ---\<newline>Deposit: $500\<newline>'', None)
   \<and> text_page_indices two_pages = [0, 1]
   \<and> ''--- Page 1 ---\<newline>Rent: $1200\<newline>\<newline>--- Page 2 ---\<newline>Deposit: $500\<newline>''
       = join_str ''\<newline>''
           (map (\<lambda>i. page_block i (page_text (two_pages ! i))) (text_page_indices two_pages))"
proof -
  have h1: "plumber_view two_page_file = Pages two_pages"
    by (simp add: two_page_file_def)
  have idx: "text_page_indices two_pages = [0, 1]"
    by (simp add: text_page_indices_def two_pages_def max_pages_def upt_conv_Cons)
  have one: "str_nat (Suc 0) = ''1''" and two: "str_nat (Suc (Suc 0)) = ''2''"
    by (simp_all add: str_nat.simps digit_char_def)
  have h2: "extract_with_pdfplumber two_page_file
       = (True, ''--- Page 1 ---\<newline>Rent: $1200\<newline>\<newline>--- Page 2 ---\<newline>Deposit: $500\<newline>'', None)"
  proof -
    have "extract_pages two_pages
          = [page_block 0 (page_text (two_pages ! 0)), page_block 1 (page_text (two_pages ! 1))]"
      by (simp add: extract_pages_blocks idx)
    then have "extract_pages two_pages
          = [''--- Page 1 ---\<newline>Rent: $1200\<newline>'', ''--- Page 2 ---\<newline>Deposit: $500\<newline>'']"
      by (simp add: page_block_def one two two_pages_def)
    then show ?thesis
      by (simp add: extract_with_pdfplumber_def h1 extract_with_Pages)
  qed
  from C7_page_blocks [OF h1 h2] h1 h2 idx show ?thesis by simp
qed

section \<open>Properties of the analyzer\<close>

lemma ensure_field_eq:
  "ensure_field f v d = (if f \<in> fst ` set d then d else d @ [(f, v)])"
proof -
  have "f \<notin> fst ` set d \<Longrightarrow> AList.update f v d = d @ [(f, v)]"
    by (induction d) auto
  then show ?thesis by (simp add: ensure_field_def)
qed

lemma keys_ensure_field: "fst ` set (ensure_field f v d) = insert f (fst ` set d)"
  by (auto simp: ensure_field_eq)

lemma map_of_ensure_field:
  "map_of (ensure_field f v d) k
   = (if k = f \<and> map_of d f = None then Some v else map_of d k)"
  by (auto simp: ensure_field_def AList.update_conv' map_of_eq_None_iff)

lemma keys_fallback_parse_analysis:
  "fst ` set (fallback_parse_analysis t) = {''summary'', ''key_points'', ''warnings''}"
  by (auto simp: fallback_parse_analysis_def)

lemma parse_analysis_response_keys:
  assumes "parse_analysis_response self response = Inr d"
  shows "{''summary'', ''key_points'', ''warnings''} \<subseteq> fst ` set d"
  using assms
  by (auto simp: parse_analysis_response_def keys_ensure_field keys_fallback_parse_analysis
      split: json.splits option.splits decode_outcome.splits)

lemma parse_qa_response_keys:
  assumes "parse_qa_response self response = Inr d"
  shows "{''answer'', ''source_section'', ''confidence''} \<subseteq> fst ` set d"
  using assms
  by (auto simp: parse_qa_response_def keys_ensure_field
      split: json.splits option.splits decode_outcome.splits)

lemma call_gemini_api_unreachable:
  "http_post self prompt = PostRaises e \<Longrightarrow> call_gemini_api self prompt = JStr (''Error: '' @ str_exn e)"
  by (simp add: call_gemini_api_def call_gemini_api_body_def)

lemma call_gemini_api_reply: "call_gemini_api (oracle_saying v) prompt = v"
  by (simp add: call_gemini_api_def call_gemini_api_body_def oracle_saying_def gemini_reply_def
      read_candidate_text_def bind_exn_def)

lemma analysis_text_reply: "analysis_text (oracle_saying v) txt fname = v"
  by (simp add: analysis_text_def call_gemini_api_reply) (simp add: oracle_saying_def)

lemma answer_text_reply: "answer_text (oracle_saying v) txt question = v"
  by (simp add: answer_text_def call_gemini_api_reply) (simp add: oracle_saying_def)

lemma json_loads_oracle_saying: "json_loads (oracle_saying v) = sample_loads"
  by (simp add: oracle_saying_def)

lemma ensure_field_extends: "\<exists>added. ensure_field f v d = d @ added"
  by (simp add: ensure_field_eq)

text \<open>
  What \<open>_parse_analysis_response\<close> does when the span decodes: the decoded object is
  kept as it is, the missing required keys are appended, each with the value \<open>[]\<close>.
\<close>

lemma parse_analysis_defaults:
  assumes "find_json_span response_text = Some json_str"
    and "json_loads self json_str = Decoded obj"
  shows "\<exists>d added. parse_analysis_response self (JStr response_text) = Inr d
     \<and> d = obj @ added
     \<and> (\<forall>k. map_of d k = (case map_of obj k of
                              Some v \<Rightarrow> Some v
                            | None \<Rightarrow> if k \<in> {''summary'', ''key_points'', ''warnings''}
                                      then Some (JArr []) else None))"
proof -
  let ?d = "ensure_field ''warnings'' (JArr [])
              (ensure_field ''key_points'' (JArr []) (ensure_field ''summary'' (JArr []) obj))"
  have run: "parse_analysis_response self (JStr response_text) = Inr ?d"
    using assms by (simp add: parse_analysis_response_def)
  obtain a1 where a1: "ensure_field ''summary'' (JArr []) obj = obj @ a1"
    using ensure_field_extends by blast
  obtain a2 where a2: "ensure_field ''key_points'' (JArr []) (obj @ a1) = (obj @ a1) @ a2"
    using ensure_field_extends by blast
  obtain a3 where a3: "ensure_field ''warnings'' (JArr []) ((obj @ a1) @ a2) = ((obj @ a1) @ a2) @ a3"
    using ensure_field_extends by blast
  have ext: "?d = obj @ (a1 @ a2 @ a3)"
    using a1 a2 a3 by simp
  have look: "map_of ?d k = (case map_of obj k of
                              Some v \<Rightarrow> Some v
                            | None \<Rightarrow> if k \<in> {''summary'', ''key_points'', ''warnings''}
                                      then Some (JArr []) else None)" for k
    by (auto simp: map_of_ensure_field split: option.splits)
  from run ext look show ?thesis by blast
qed

lemma key_in_dict: "(k \<in> fst ` set d) = (map_of d k \<noteq> None)"
  by (simp add: map_of_eq_None_iff)

lemma payload_failure_read:
  "payload_failure_text payload = Some t \<Longrightarrow> read_candidate_text payload = Inr (JStr t)"
  by (auto simp: payload_failure_text_def read_candidate_text_def bind_exn_def key_in_dict
      split: json.splits option.splits list.splits if_splits)

lemma call_gemini_api_failure:
  "oracle_failure_text (http_post self prompt) = Some t \<Longrightarrow> call_gemini_api self prompt = JStr t"
  by (cases "http_post self prompt")
    (auto simp: call_gemini_api_def call_gemini_api_body_def bind_exn_def
      dest: payload_failure_read split: if_splits sum.splits)

lemma no_brace_no_span: "CHR ''{'' \<notin> set s \<Longrightarrow> find_json_span s = None"
proof -
  assume "CHR ''{'' \<notin> set s"
  then have "dropWhile (\<lambda>c. c \<noteq> CHR ''{'') s = []"
    by (auto simp: dropWhile_eq_Nil_conv)
  then show ?thesis unfolding find_json_span_def by (simp only: list.case)
qed

lemma digit_char_digit: "d < 10 \<Longrightarrow> digit_char d \<in> set ''0123456789''"
  unfolding digit_char_def by (rule nth_mem) simp

lemma str_nat_digits: "set (str_nat n) \<subseteq> set ''0123456789''"
proof (induction n rule: str_nat.induct)
  case (1 n)
  show ?case
  proof (cases "n < 10")
    case True
    then show ?thesis
      using digit_char_digit [of n] by (subst str_nat.simps) simp
  next
    case False
    have "n mod 10 < 10" by simp
    with False 1 digit_char_digit [of "n mod 10"] show ?thesis
      by (subst str_nat.simps) simp
  qed
qed

lemma status_text_no_span:
  "find_json_span (''Error: API call failed ('' @ str_nat n @ '')'') = None"
proof -
  have "CHR ''{'' \<notin> set (str_nat n)"
    using str_nat_digits [of n] by auto
  then show ?thesis by (intro no_brace_no_span) simp
qed

lemma analyze_on_failure:
  assumes "use_gemini_api self"
    and "oracle_failure_text (http_post self (analysis_prompt (take 8000 t)
            (case fname of None \<Rightarrow> ''document'' | Some f \<Rightarrow> if f = [] then ''document'' else f)))
         = Some m"
  shows "analysis_text self t fname = JStr m"
    and "analyze_document_body self t fname = parse_analysis_response self (JStr m)"
    and "find_json_span m = None \<Longrightarrow> analyze_document self t fname
       = Inr [(''summary'', JStr (if length m > 500 then take 500 m @ ''...'' else m)),
              (''key_points'', JArr [JStr ''Document analysis completed'',
                                     JStr ''Please review the full response above'',
                                     JStr ''Contact support if you need clarification'']),
              (''warnings'', JArr [JStr ''Analysis format may not be optimal'',
                                   JStr ''Please verify important details independently''])]"
proof -
  show a: "analysis_text self t fname = JStr m"
    using assms by (simp add: analysis_text_def call_gemini_api_failure)
  then show b: "analyze_document_body self t fname = parse_analysis_response self (JStr m)"
    by (simp add: analyze_document_body_def)
  assume "find_json_span m = None"
  with b show "analyze_document self t fname
       = Inr [(''summary'', JStr (if length m > 500 then take 500 m @ ''...'' else m)),
              (''key_points'', JArr [JStr ''Document analysis completed'',
                                     JStr ''Please review the full response above'',
                                     JStr ''Contact support if you need clarification'']),
              (''warnings'', JArr [JStr ''Analysis format may not be optimal'',
                                   JStr ''Please verify important details independently''])]"
    by (simp add: analyze_document_def parse_analysis_response_def fallback_parse_analysis_def)
qed

lemma answer_on_failure:
  assumes "use_gemini_api self"
    and "oracle_failure_text (http_post self (qa_prompt (take 8000 t) question)) = Some m"
  shows "answer_text self t question = JStr m"
    and "answer_question_body self t question = parse_qa_response self (JStr m)"
    and "find_json_span m = None \<Longrightarrow> answer_question self t question
       = Inr [(''answer'', JStr m), (''source_section'', JNull), (''confidence'', JStr ''medium'')]"
proof -
  show a: "answer_text self t question = JStr m"
    using assms by (simp add: answer_text_def call_gemini_api_failure)
  then show b: "answer_question_body self t question = parse_qa_response self (JStr m)"
    by (simp add: answer_question_body_def)
  assume "find_json_span m = None"
  with b show "answer_question self t question
       = Inr [(''answer'', JStr m), (''source_section'', JNull), (''confidence'', JStr ''medium'')]"
    by (simp add: answer_question_def parse_qa_response_def)
qed

text \<open>
  Claim C1, as stated, fails when the oracle is unreachable: \<open>_call_gemini_api\<close> turns
  the failure into the text "Error: Connection refused", which is then parsed like any
  response without a JSON span. Both operations return the ordinary fallback result; no
  \<open>error\<close> field is set, and the summary (the answer) is the error text.
\<close>

theorem C1_oracle_failure_counterexample:
  "analyze_document unreachable_oracle ''Rent: $1200'' (Some ''lease.pdf'')
     = Inr [(''summary'', JStr ''Error: Connection refused''),
            (''key_points'', JArr [JStr ''Document analysis completed'',
                                   JStr ''Please review the full response above'',
                                   JStr ''Contact support if you need clarification'']),
            (''warnings'', JArr [JStr ''Analysis format may not be optimal'',
                                 JStr ''Please verify important details independently''])]
   \<and> answer_question unreachable_oracle ''Rent: $1200'' ''What is the rent?''
     = Inr [(''answer'', JStr ''Error: Connection refused''), (''source_section'', JNull),
            (''confidence'', JStr ''medium'')]"
proof -
  have call: "call_gemini_api unreachable_oracle prompt = JStr ''Error: Connection refused''" for prompt
    by (simp add: call_gemini_api_unreachable unreachable_oracle_def)
  have span: "find_json_span ''Error: Connection refused'' = None"
    by (simp add: find_json_span_def)
  have a: "analysis_text unreachable_oracle t fname = JStr ''Error: Connection refused''" for t fname
    by (simp add: analysis_text_def call) (simp add: unreachable_oracle_def)
  have b: "answer_text unreachable_oracle t q = JStr ''Error: Connection refused''" for t q
    by (simp add: answer_text_def call) (simp add: unreachable_oracle_def)
  show ?thesis
    by (simp add: analyze_document_def analyze_document_body_def answer_question_def
        answer_question_body_def a b parse_analysis_response_def parse_qa_response_def span
        fallback_parse_analysis_def)
qed

text \<open>
  Claim C1, amended: for every text, filename and question and every behaviour of the
  oracle call and of the JSON decoder, \<open>analyze_document\<close> and \<open>answer_question\<close> never
  raise and return a dictionary that has the keys \<open>summary\<close>, \<open>key_points\<close>, \<open>warnings\<close>
  (respectively \<open>answer\<close>, \<open>source_section\<close>, \<open>confidence\<close>). When an exception leaves
  the body of the operation, the returned dictionary is the fixed default content (a
  summary or answer string, one key point and one warning for analyze, confidence
  \<open>low\<close> for answer) together with an \<open>error\<close> field holding the exception's message.
  A failure of the oracle call is not such an exception. Whether the request raised
  (unreachable, timeout), the status is not 200, \<open>response.json()\<close> raised or the
  payload lacks the candidate, content or parts entry, \<open>_call_gemini_api\<close> returns the
  text "Error: ..." that stands for the failure, and the operation's result is the parse
  of that text: when the text holds no \<open>{...}\<close> span (always so for the texts of a
  non-200 status and of a payload of the wrong shape), it is the fallback result with
  that text as summary (cut to 500 characters) or as answer with confidence \<open>medium\<close>,
  and it has no \<open>error\<close> field.
\<close>

theorem C1_never_raise:
  "(\<exists>d. analyze_document self txt fname = Inr d
      \<and> {''summary'', ''key_points'', ''warnings''} \<subseteq> fst ` set d
      \<and> (\<forall>e. analyze_document_body self txt fname = Inl e \<longrightarrow>
             d = [(''summary'', JStr ''Analysis failed due to technical error''),
                  (''key_points'', JArr [JStr ''Unable to analyze document at this time'']),
                  (''warnings'', JArr [JStr ''Please try again later or contact support'']),
                  (''error'', JStr (str_exn e))]))
   \<and> (\<exists>d. answer_question self txt question = Inr d
      \<and> {''answer'', ''source_section'', ''confidence''} \<subseteq> fst ` set d
      \<and> (\<forall>e. answer_question_body self txt question = Inl e \<longrightarrow>
             d = [(''answer'', JStr ''Unable to answer question due to technical error''),
                  (''source_section'', JNull),
                  (''confidence'', JStr ''low''),
                  (''error'', JStr (str_exn e))]))
   \<and> (\<forall>prompt m. oracle_failure_text (http_post self prompt) = Some m \<longrightarrow>
         call_gemini_api self prompt = JStr m)
   \<and> (\<forall>m. use_gemini_api self
          \<and> oracle_failure_text (http_post self (analysis_prompt (take 8000 txt)
               (case fname of None \<Rightarrow> ''document''
                | Some f \<Rightarrow> if f = [] then ''document'' else f))) = Some m \<longrightarrow>
         analyze_document_body self txt fname = parse_analysis_response self (JStr m)
         \<and> (find_json_span m = None \<longrightarrow>
              analyze_document self txt fname
              = Inr [(''summary'', JStr (if length m > 500 then take 500 m @ ''...'' else m)),
                     (''key_points'', JArr [JStr ''Document analysis completed'',
                                            JStr ''Please review the full response above'',
                                            JStr ''Contact support if you need clarification'']),
                     (''warnings'', JArr [JStr ''Analysis format may not be optimal'',
                                          JStr ''Please verify important details independently''])]))
   \<and> (\<forall>m. use_gemini_api self
          \<and> oracle_failure_text (http_post self (qa_prompt (take 8000 txt) question)) = Some m \<longrightarrow>
         answer_question_body self txt question = parse_qa_response self (JStr m)
         \<and> (find_json_span m = None \<longrightarrow>
              answer_question self txt question
              = Inr [(''answer'', JStr m), (''source_section'', JNull),
                     (''confidence'', JStr ''medium'')]))
   \<and> (\<forall>n. find_json_span (''Error: API call failed ('' @ str_nat n @ '')'') = None)
   \<and> find_json_span ''Error: No response generated'' = None
   \<and> find_json_span ''Error: Unexpected response format'' = None"
proof (intro conjI)
  show "\<exists>d. analyze_document self txt fname = Inr d
      \<and> {''summary'', ''key_points'', ''warnings''} \<subseteq> fst ` set d
      \<and> (\<forall>e. analyze_document_body self txt fname = Inl e \<longrightarrow>
             d = [(''summary'', JStr ''Analysis failed due to technical error''),
                  (''key_points'', JArr [JStr ''Unable to analyze document at this time'']),
                  (''warnings'', JArr [JStr ''Please try again later or contact support'']),
                  (''error'', JStr (str_exn e))])"
  proof (cases "analyze_document_body self txt fname")
    case (Inl e)
    then show ?thesis by (simp add: analyze_document_def)
  next
    case (Inr d)
    then have "{''summary'', ''key_points'', ''warnings''} \<subseteq> fst ` set d"
      unfolding analyze_document_body_def by (rule parse_analysis_response_keys)
    with Inr show ?thesis by (simp add: analyze_document_def)
  qed
next
  show "\<exists>d. answer_question self txt question = Inr d
      \<and> {''answer'', ''source_section'', ''confidence''} \<subseteq> fst ` set d
      \<and> (\<forall>e. answer_question_body self txt question = Inl e \<longrightarrow>
             d = [(''answer'', JStr ''Unable to answer question due to technical error''),
                  (''source_section'', JNull),
                  (''confidence'', JStr ''low''),
                  (''error'', JStr (str_exn e))])"
  proof (cases "answer_question_body self txt question")
    case (Inl e)
    then show ?thesis by (simp add: answer_question_def)
  next
    case (Inr d)
    then have "{''answer'', ''source_section'', ''confidence''} \<subseteq> fst ` set d"
      unfolding answer_question_body_def by (rule parse_qa_response_keys)
    with Inr show ?thesis by (simp add: answer_question_def)
  qed
next
  show "\<forall>prompt m. oracle_failure_text (http_post self prompt) = Some m \<longrightarrow>
         call_gemini_api self prompt = JStr m"
    by (simp add: call_gemini_api_failure)
next
  show "\<forall>m. use_gemini_api self
          \<and> oracle_failure_text (http_post self (analysis_prompt (take 8000 txt)
               (case fname of None \<Rightarrow> ''document''
                | Some f \<Rightarrow> if f = [] then ''document'' else f))) = Some m \<longrightarrow>
         analyze_document_body self txt fname = parse_analysis_response self (JStr m)
         \<and> (find_json_span m = None \<longrightarrow>
              analyze_document self txt fname
              = Inr [(''summary'', JStr (if length m > 500 then take 500 m @ ''...'' else m)),
                     (''key_points'', JArr [JStr ''Document analysis completed'',
                                            JStr ''Please review the full response above'',
                                            JStr ''Contact support if you need clarification'']),
                     (''warnings'', JArr [JStr ''Analysis format may not be optimal'',
                                          JStr ''Please verify important details independently''])])"
    using analyze_on_failure(2,3) [of self _ fname] by blast
next
  show "\<forall>m. use_gemini_api self
          \<and> oracle_failure_text (http_post self (qa_prompt (take 8000 txt) question)) = Some m \<longrightarrow>
         answer_question_body self txt question = parse_qa_response self (JStr m)
         \<and> (find_json_span m = None \<longrightarrow>
              answer_question self txt question
              = Inr [(''answer'', JStr m), (''source_section'', JNull),
                     (''confidence'', JStr ''medium'')])"
    using answer_on_failure(2,3) [of self _ question] by blast
next
  show "\<forall>n. find_json_span (''Error: API call failed ('' @ str_nat n @ '')'') = None"
    by (intro allI status_text_no_span)
next
  show "find_json_span ''Error: No response generated'' = None"
    by (rule no_brace_no_span) simp
next
  show "find_json_span ''Error: Unexpected response format'' = None"
    by (rule no_brace_no_span) simp
qed

text \<open>
  Cases of C1: an oracle whose generated text is the number 5 makes \<open>re.search\<close>
  raise inside both bodies; a response of status 500 and a payload without candidates
  give the fallback results with the error text and no \<open>error\<close> field.
\<close>

theorem C1_never_raise_witness:
  "analyze_document_body (oracle_saying (JInt 5)) ''Rent: $1200'' None
     = Inl (Raised ''expected string or bytes-like object'')
   \<and> analyze_document (oracle_saying (JInt 5)) ''Rent: $1200'' None
     = Inr [(''summary'', JStr ''Analysis failed due to technical error''),
            (''key_points'', JArr [JStr ''Unable to analyze document at this time'']),
            (''warnings'', JArr [JStr ''Please try again later or contact support'']),
            (''error'', JStr ''expected string or bytes-like object'')]
   \<and> answer_question_body (oracle_saying (JInt 5)) ''Rent: $1200'' ''What is the rent?''
     = Inl (Raised ''expected string or bytes-like object'')
   \<and> answer_question (oracle_saying (JInt 5)) ''Rent: $1200'' ''What is the rent?''
     = Inr [(''answer'', JStr ''Unable to answer question due to technical error''),
            (''source_section'', JNull),
            (''confidence'', JStr ''low''),
            (''error'', JStr ''expected string or bytes-like object'')]
   \<and> oracle_failure_text (http_post server_error_oracle ''prompt'')
     = Some ''Error: API call failed (500)''
   \<and> call_gemini_api server_error_oracle ''prompt'' = JStr ''Error: API call failed (500)''
   \<and> analyze_document server_error_oracle ''Rent: $1200'' None
     = Inr [(''summary'', JStr ''Error: API call failed (500)''),
            (''key_points'', JArr [JStr ''Document analysis completed'',
                                   JStr ''Please review the full response above'',
                                   JStr ''Contact support if you need clarification'']),
            (''warnings'', JArr [JStr ''Analysis format may not be optimal'',
                                 JStr ''Please verify important details independently''])]
   \<and> answer_question no_candidates_oracle ''Rent: $1200'' ''What is the rent?''
     = Inr [(''answer'', JStr ''Error: No response generated''), (''source_section'', JNull),
            (''confidence'', JStr ''medium'')]"
proof -
  have a: "analyze_document_body (oracle_saying (JInt 5)) ''Rent: $1200'' None
     = Inl (Raised ''expected string or bytes-like object'')"
    by (simp add: analyze_document_body_def analysis_text_reply parse_analysis_response_def)
  have b: "answer_question_body (oracle_saying (JInt 5)) ''Rent: $1200'' ''What is the rent?''
     = Inl (Raised ''expected string or bytes-like object'')"
    by (simp add: answer_question_body_def answer_text_reply parse_qa_response_def)
  have n500: "str_nat 500 = ''500''"
    by (simp add: str_nat.simps digit_char_def)
  have c: "use_gemini_api server_error_oracle
           \<and> oracle_failure_text (http_post server_error_oracle p) = Some ''Error: API call failed (500)''" for p
    by (simp add: server_error_oracle_def n500)
  have d: "use_gemini_api no_candidates_oracle
           \<and> oracle_failure_text (http_post no_candidates_oracle p) = Some ''Error: No response generated''" for p
    by (simp add: no_candidates_oracle_def payload_failure_text_def)
  note w1 = C1_never_raise [of "oracle_saying (JInt 5)" "''Rent: $1200''" None "''What is the rent?''"]
  note w2 = C1_never_raise [of server_error_oracle "''Rent: $1200''" None "''What is the rent?''"]
  note w3 = C1_never_raise [of no_candidates_oracle "''Rent: $1200''" None "''What is the rent?''"]
  note w1a = w1 [THEN conjunct1]
  note w1b = w1 [THEN conjunct2, THEN conjunct1]
  note w2c = w2 [THEN conjunct2, THEN conjunct2, THEN conjunct1]
  note w2d = w2 [THEN conjunct2, THEN conjunct2, THEN conjunct2, THEN conjunct1]
  note w3e = w3 [THEN conjunct2, THEN conjunct2, THEN conjunct2, THEN conjunct2, THEN conjunct1]
  have span1: "find_json_span ''Error: API call failed (500)'' = None"
    by (rule no_brace_no_span) simp
  have span2: "find_json_span ''Error: No response generated'' = None"
    by (rule no_brace_no_span) simp
  from w1a obtain d1 where d1: "analyze_document (oracle_saying (JInt 5)) ''Rent: $1200'' None = Inr d1"
    and h1: "\<forall>e. analyze_document_body (oracle_saying (JInt 5)) ''Rent: $1200'' None = Inl e \<longrightarrow>
             d1 = [(''summary'', JStr ''Analysis failed due to technical error''),
                  (''key_points'', JArr [JStr ''Unable to analyze document at this time'']),
                  (''warnings'', JArr [JStr ''Please try again later or contact support'']),
                  (''error'', JStr (str_exn e))]"
    by blast
  from h1 a d1 have r1: "analyze_document (oracle_saying (JInt 5)) ''Rent: $1200'' None
     = Inr [(''summary'', JStr ''Analysis failed due to technical error''),
            (''key_points'', JArr [JStr ''Unable to analyze document at this time'']),
            (''warnings'', JArr [JStr ''Please try again later or contact support'']),
            (''error'', JStr ''expected string or bytes-like object'')]"
    by simp
  from w1b obtain d2 where d2: "answer_question (oracle_saying (JInt 5)) ''Rent: $1200'' ''What is the rent?'' = Inr d2"
    and h2: "\<forall>e. answer_question_body (oracle_saying (JInt 5)) ''Rent: $1200'' ''What is the rent?'' = Inl e \<longrightarrow>
             d2 = [(''answer'', JStr ''Unable to answer question due to technical error''),
                  (''source_section'', JNull),
                  (''confidence'', JStr ''low''),
                  (''error'', JStr (str_exn e))]"
    by blast
  from h2 b d2 have r2: "answer_question (oracle_saying (JInt 5)) ''Rent: $1200'' ''What is the rent?''
     = Inr [(''answer'', JStr ''Unable to answer question due to technical error''),
            (''source_section'', JNull),
            (''confidence'', JStr ''low''),
            (''error'', JStr ''expected string or bytes-like object'')]"
    by simp
  have c1: "oracle_failure_text (http_post server_error_oracle ''prompt'')
     = Some ''Error: API call failed (500)''"
    using c by simp
  have r3: "call_gemini_api server_error_oracle ''prompt'' = JStr ''Error: API call failed (500)''"
    using w2c [rule_format, OF c1] .
  have r4: "analyze_document server_error_oracle ''Rent: $1200'' None
     = Inr [(''summary'', JStr ''Error: API call failed (500)''),
            (''key_points'', JArr [JStr ''Document analysis completed'',
                                   JStr ''Please review the full response above'',
                                   JStr ''Contact support if you need clarification'']),
            (''warnings'', JArr [JStr ''Analysis format may not be optimal'',
                                 JStr ''Please verify important details independently''])]"
    using w2d [rule_format, OF c, THEN conjunct2, rule_format, OF span1] by simp
  have r5: "answer_question no_candidates_oracle ''Rent: $1200'' ''What is the rent?''
     = Inr [(''answer'', JStr ''Error: No response generated''), (''source_section'', JNull),
            (''confidence'', JStr ''medium'')]"
    using w3e [rule_format, OF d, THEN conjunct2, rule_format, OF span2] .
  show ?thesis
    by (intro conjI) (rule a r1 b r2 c1 r3 r4 r5)+
qed

text \<open>
  Claim C4 on the code: the oracle answers with a well-formed JSON object that lacks
  \<open>summary\<close>. The keys it provided are kept, but the missing \<open>summary\<close> is set to the
  empty list \<open>[]\<close> and not to the empty string: the loop over the required fields
  assigns \<open>[]\<close> to every missing field.
\<close>

theorem C4_missing_summary_becomes_list:
  \<open>analyze_document
     (oracle_saying (JStr ''{"key_points": ["Rent is due monthly"], "warnings": []}''))
     ''Rent: $1200'' None
   = Inr [(''key_points'', JArr [JStr ''Rent is due monthly'']), (''warnings'', JArr []),
          (''summary'', JArr [])]\<close>
proof -
  have span: \<open>find_json_span ''{"key_points": ["Rent is due monthly"], "warnings": []}''
              = Some ''{"key_points": ["Rent is due monthly"], "warnings": []}''\<close>
    by (simp add: find_json_span_def)
  show ?thesis
    by (simp add: analyze_document_def analyze_document_body_def analysis_text_reply
        parse_analysis_response_def span json_loads_oracle_saying sample_loads_def
        ensure_field_eq)
qed

text \<open>
  Claim C5, as stated, fails for a response without a JSON span: the answer is the raw
  text, but the confidence is \<open>medium\<close>, not \<open>low\<close>.
\<close>

theorem C5_no_span_counterexample:
  "find_json_span ''The rent is $1200.'' = None
   \<and> answer_question (oracle_saying (JStr ''The rent is $1200.'')) ''Rent: $1200'' ''What is the rent?''
     = Inr [(''answer'', JStr ''The rent is $1200.''), (''source_section'', JNull),
            (''confidence'', JStr ''medium'')]"
proof -
  have span: "find_json_span ''The rent is $1200.'' = None"
    by (simp add: find_json_span_def)
  then show ?thesis
    by (simp add: answer_question_def answer_question_body_def answer_text_reply
        parse_qa_response_def)
qed

text \<open>
  Claim C5, amended: for every raw oracle response text, \<open>answer_question\<close> returns the
  raw text verbatim as \<open>answer\<close> with \<open>source_section\<close> none in both fallback cases; the
  confidence is \<open>medium\<close> when no \<open>{...}\<close> span is found, and \<open>low\<close> when the extracted
  span fails structured decode.
\<close>

theorem C5_fallback_confidence:
  assumes "answer_text self document_text question = JStr response_text"
  shows "(find_json_span response_text = None \<longrightarrow>
            answer_question self document_text question
            = Inr [(''answer'', JStr response_text), (''source_section'', JNull),
                   (''confidence'', JStr ''medium'')])
       \<and> (\<forall>json_str m. find_json_span response_text = Some json_str
              \<and> json_loads self json_str = JSONDecodeError m \<longrightarrow>
            answer_question self document_text question
            = Inr [(''answer'', JStr response_text), (''source_section'', JNull),
                   (''confidence'', JStr ''low'')])"
  using assms
  by (simp add: answer_question_def answer_question_body_def parse_qa_response_def)

text \<open>Two cases of C5: a text with no span, and a span that is not JSON.\<close>

theorem C5_fallback_confidence_witness:
  "answer_text (oracle_saying (JStr ''Rent {is due'')) ''Rent: $1200'' ''What is the rent?''
     = JStr ''Rent {is due''
   \<and> find_json_span ''Rent {is due'' = None
   \<and> answer_question (oracle_saying (JStr ''Rent {is due'')) ''Rent: $1200'' ''What is the rent?''
     = Inr [(''answer'', JStr ''Rent {is due''), (''source_section'', JNull),
            (''confidence'', JStr ''medium'')]
   \<and> answer_text (oracle_saying (JStr ''{oops}'')) ''Rent: $1200'' ''What is the rent?''
     = JStr ''{oops}''
   \<and> find_json_span ''{oops}'' = Some ''{oops}''
   \<and> json_loads (oracle_saying (JStr ''{oops}'')) ''{oops}''
     = JSONDecodeError ''Expecting property name enclosed in double quotes''
   \<and> answer_question (oracle_saying (JStr ''{oops}'')) ''Rent: $1200'' ''What is the rent?''
     = Inr [(''answer'', JStr ''{oops}''), (''source_section'', JNull),
            (''confidence'', JStr ''low'')]"
proof -
  have s1: "find_json_span ''Rent {is due'' = None"
    and s2: "find_json_span ''{oops}'' = Some ''{oops}''"
    by (simp_all add: find_json_span_def)
  have l: "json_loads (oracle_saying (JStr ''{oops}'')) ''{oops}''
     = JSONDecodeError ''Expecting property name enclosed in double quotes''"
    by (simp add: json_loads_oracle_saying sample_loads_def)
  from C5_fallback_confidence [OF answer_text_reply, of "''Rent {is due''" "''Rent: $1200''" "''What is the rent?''"]
    C5_fallback_confidence [OF answer_text_reply, of "''{oops}''" "''Rent: $1200''" "''What is the rent?''"]
    s1 s2 l
  show ?thesis by (simp add: answer_text_reply)
qed

text \<open>
  Claim C6, as stated, fails for the empty response text: it has no span, and the summary
  returned is the empty string.
\<close>

theorem C6_empty_response_counterexample:
  "find_json_span [] = None
   \<and> analyze_document (oracle_saying (JStr [])) ''Rent: $1200'' None
     = Inr [(''summary'', JStr []),
            (''key_points'', JArr [JStr ''Document analysis completed'',
                                   JStr ''Please review the full response above'',
                                   JStr ''Contact support if you need clarification'']),
            (''warnings'', JArr [JStr ''Analysis format may not be optimal'',
                                 JStr ''Please verify important details independently''])]"
  by (simp add: find_json_span_def analyze_document_def analyze_document_body_def
      analysis_text_reply parse_analysis_response_def fallback_parse_analysis_def)

text \<open>
  Claim C6, amended: for every raw oracle response text that contains no \<open>{...}\<close> span,
  \<open>analyze_document\<close> does not raise and returns the fixed placeholder lists as
  \<open>key_points\<close> (three entries) and \<open>warnings\<close> (two entries); \<open>summary\<close> is the raw
  text, cut to its first 500 characters followed by "..." when longer, and so it is
  non-empty exactly when the response text is non-empty.
\<close>

theorem C6_fallback_analysis:
  assumes "analysis_text self txt fname = JStr response_text"
    and "find_json_span response_text = None"
  shows "\<exists>summary. analyze_document self txt fname
       = Inr [(''summary'', JStr summary),
              (''key_points'', JArr [JStr ''Document analysis completed'',
                                     JStr ''Please review the full response above'',
                                     JStr ''Contact support if you need clarification'']),
              (''warnings'', JArr [JStr ''Analysis format may not be optimal'',
                                   JStr ''Please verify important details independently''])]
     \<and> summary = (if length response_text > 500 then take 500 response_text @ ''...''
                   else response_text)
     \<and> (summary \<noteq> [] \<longleftrightarrow> response_text \<noteq> [])"
  using assms
  by (auto simp: analyze_document_def analyze_document_body_def parse_analysis_response_def
      fallback_parse_analysis_def)

text \<open>A case of C6: a plain-text response.\<close>

theorem C6_fallback_analysis_witness:
  "analysis_text (oracle_saying (JStr ''The lease looks fine.'')) ''Rent: $1200'' None
     = JStr ''The lease looks fine.''
   \<and> find_json_span ''The lease looks fine.'' = None
   \<and> analyze_document (oracle_saying (JStr ''The lease looks fine.'')) ''Rent: $1200'' None
       = Inr [(''summary'', JStr ''The lease looks fine.''),
              (''key_points'', JArr [JStr ''Document analysis completed'',
                                     JStr ''Please review the full response above'',
                                     JStr ''Contact support if you need clarification'']),
              (''warnings'', JArr [JStr ''Analysis format may not be optimal'',
                                   JStr ''Please verify important details independently''])]"
proof -
  have s: "find_json_span ''The lease looks fine.'' = None"
    by (simp add: find_json_span_def)
  from C6_fallback_analysis [OF analysis_text_reply s, of "''Rent: $1200''" None] s
  show ?thesis by (simp add: analysis_text_reply)
qed

text \<open>
  Claim C9, as stated, fails when the oracle's JSON carries another confidence value: it
  is returned as it is.
\<close>

theorem C9_unvalidated_confidence_counterexample:
  \<open>answer_question (oracle_saying (JStr ''{"answer": "Yes", "confidence": "certain"}''))
     ''Rent: $1200'' ''Is rent due?''
   = Inr [(''answer'', JStr ''Yes''), (''confidence'', JStr ''certain''),
          (''source_section'', JNull)]\<close>
proof -
  have span: \<open>find_json_span ''{"answer": "Yes", "confidence": "certain"}''
              = Some ''{"answer": "Yes", "confidence": "certain"}''\<close>
    by (simp add: find_json_span_def)
  show ?thesis
    by (simp add: answer_question_def answer_question_body_def answer_text_reply
        parse_qa_response_def span json_loads_oracle_saying sample_loads_def ensure_field_eq)
qed

text \<open>
  Claim C9, amended: every result of \<open>answer_question\<close> has a \<open>confidence\<close> field, and
  its value is determined case by case. It is \<open>medium\<close> when the response text has no
  \<open>{...}\<close> span and when the span decodes to an object without a \<open>confidence\<close> key; it
  is \<open>low\<close> when the span fails to decode and when an exception leaves the body (the
  decoder raised something else, or the oracle's text is not a string); and when the
  decoded object carries a \<open>confidence\<close> key, its value is returned unchanged, whatever
  it is: it is not validated against \<open>high\<close>, \<open>medium\<close>, \<open>low\<close>.
\<close>

theorem C9_confidence_values:
  "\<exists>d. answer_question self document_text question = Inr d
     \<and> map_of d ''confidence''
       = Some (case answer_text self document_text question of
                 JStr response_text \<Rightarrow>
                   (case find_json_span response_text of
                      None \<Rightarrow> JStr ''medium''
                    | Some json_str \<Rightarrow>
                        (case json_loads self json_str of
                           Decoded obj \<Rightarrow>
                             (case map_of obj ''confidence'' of
                                Some provided \<Rightarrow> provided
                              | None \<Rightarrow> JStr ''medium'')
                         | JSONDecodeError m \<Rightarrow> JStr ''low''
                         | DecodeRaises e \<Rightarrow> JStr ''low''))
               | other \<Rightarrow> JStr ''low'')
     \<and> (\<forall>response_text json_str obj provided.
           answer_text self document_text question = JStr response_text
           \<and> find_json_span response_text = Some json_str
           \<and> json_loads self json_str = Decoded obj
           \<and> map_of obj ''confidence'' = Some provided \<longrightarrow>
           map_of d ''confidence'' = Some provided)"
proof -
  let ?expected = "case answer_text self document_text question of
                 JStr response_text \<Rightarrow>
                   (case find_json_span response_text of
                      None \<Rightarrow> JStr ''medium''
                    | Some json_str \<Rightarrow>
                        (case json_loads self json_str of
                           Decoded obj \<Rightarrow>
                             (case map_of obj ''confidence'' of
                                Some provided \<Rightarrow> provided
                              | None \<Rightarrow> JStr ''medium'')
                         | JSONDecodeError m \<Rightarrow> JStr ''low''
                         | DecodeRaises e \<Rightarrow> JStr ''low''))
               | other \<Rightarrow> JStr ''low''"
  have "\<exists>d. answer_question self document_text question = Inr d
          \<and> map_of d ''confidence'' = Some ?expected"
    by (auto simp: answer_question_def answer_question_body_def parse_qa_response_def
        map_of_ensure_field
        split: json.splits option.splits decode_outcome.splits)
  then obtain d where d: "answer_question self document_text question = Inr d"
    and c: "map_of d ''confidence'' = Some ?expected"
    by blast
  have "\<forall>response_text json_str obj provided.
           answer_text self document_text question = JStr response_text
           \<and> find_json_span response_text = Some json_str
           \<and> json_loads self json_str = Decoded obj
           \<and> map_of obj ''confidence'' = Some provided \<longrightarrow>
           map_of d ''confidence'' = Some provided"
    unfolding c by auto
  with d c show ?thesis by blast
qed

text \<open>
  Cases of C9: a provided value outside the enumeration, a plain-text response and a
  span that is not JSON.
\<close>

theorem C9_confidence_values_witness:
  \<open>(\<exists>d. answer_question (oracle_saying (JStr ''{"answer": "Yes", "confidence": "certain"}''))
            ''Rent: $1200'' ''Is rent due?'' = Inr d
        \<and> map_of d ''confidence'' = Some (JStr ''certain''))
    \<and> (\<exists>d. answer_question (oracle_saying (JStr ''Yes, monthly.'')) ''Rent: $1200'' ''Is rent due?'' = Inr d
        \<and> map_of d ''confidence'' = Some (JStr ''medium''))
    \<and> (\<exists>d. answer_question (oracle_saying (JStr ''{oops}'')) ''Rent: $1200'' ''Is rent due?'' = Inr d
        \<and> map_of d ''confidence'' = Some (JStr ''low''))\<close>
proof -
  have s1: \<open>find_json_span ''{"answer": "Yes", "confidence": "certain"}''
            = Some ''{"answer": "Yes", "confidence": "certain"}''\<close>
    and s2: "find_json_span ''Yes, monthly.'' = None"
    and s3: "find_json_span ''{oops}'' = Some ''{oops}''"
    by (simp_all add: find_json_span_def)
  have l1: \<open>sample_loads ''{"answer": "Yes", "confidence": "certain"}''
            = Decoded [(''answer'', JStr ''Yes''), (''confidence'', JStr ''certain'')]\<close>
    and l3: "sample_loads ''{oops}'' = JSONDecodeError ''Expecting property name enclosed in double quotes''"
    by (simp_all add: sample_loads_def)
  from C9_confidence_values
         [of \<open>oracle_saying (JStr ''{"answer": "Yes", "confidence": "certain"}'')\<close>
             "''Rent: $1200''" "''Is rent due?''"]
  have w1: \<open>\<exists>d. answer_question (oracle_saying (JStr ''{"answer": "Yes", "confidence": "certain"}''))
            ''Rent: $1200'' ''Is rent due?'' = Inr d
        \<and> map_of d ''confidence'' = Some (JStr ''certain'')\<close>
    by (simp add: answer_text_reply json_loads_oracle_saying s1 l1)
  from C9_confidence_values [of "oracle_saying (JStr ''Yes, monthly.'')" "''Rent: $1200''" "''Is rent due?''"]
  have w2: "\<exists>d. answer_question (oracle_saying (JStr ''Yes, monthly.'')) ''Rent: $1200'' ''Is rent due?'' = Inr d
        \<and> map_of d ''confidence'' = Some (JStr ''medium'')"
    by (simp add: answer_text_reply s2)
  from C9_confidence_values [of "oracle_saying (JStr ''{oops}'')" "''Rent: $1200''" "''Is rent due?''"]
  have w3: "\<exists>d. answer_question (oracle_saying (JStr ''{oops}'')) ''Rent: $1200'' ''Is rent due?'' = Inr d
        \<and> map_of d ''confidence'' = Some (JStr ''low'')"
    by (simp add: answer_text_reply json_loads_oracle_saying s3 l3)
  from w1 w2 w3 show ?thesis by blast
qed

end
